theory Spec2Isabelle
  imports Main "HOL-Library.Char_ord" "HOL-Library.List_Lexorder"
begin

section \<open>PUDL ETL settings validation (src/pudl/settings.py)\<close>

text \<open>
  The settings module is a family of pydantic (v1) models.  Constructing a model runs, in
  this order: the field validators in field-definition order (a field that is not supplied
  takes its default and its validators are skipped; a field whose validation fails is left
  out of the \<open>values\<close> dictionary), then the root validators, which run even when a field
  failed.  All errors raised on the way are collected and, if there is at least one, the
  constructor raises one \<open>ValidationError\<close> that holds them; otherwise the object exists.
  A constructor is therefore a function into \<open>error + object\<close>.

  Python strings are compared by code point, lists of them lexicographically; this is the
  order of \<open>string\<close> under \<open>Char_ord\<close> and \<open>List_Lexorder\<close>.
\<close>

subsection \<open>Constants imported from modules outside this file\<close>

text \<open>
  \<open>pudl.constants.WORKING_PARTITIONS\<close>, \<open>pudl.metadata.enums.EPACEMS_STATES\<close> and
  \<open>pudl.extract.ferc1.DBF_TABLES_FILENAMES\<close> are imported by the module; their values are
  parameters of every definition below.
\<close>

record constants =
  ferc1_years :: "int list"
  eia860_years :: "int list"
  eia923_years :: "int list"
  epacems_years :: "int list"
  EPACEMS_STATES :: "string list"
  DBF_TABLES_FILENAMES_keys :: "string list"

subsection \<open>Errors\<close>

text \<open>\<open>py_repr\<close> is an element of a list as an f-string prints it: an int or a quoted str.\<close>

datatype py_repr = ReprInt int | ReprStr string

datatype error =
    ValueError_missing_field string string
    \<comment> \<open>\<open>f"{cls.__name__} is missing '{name}' field."\<close>\<close>
  | ValueError_not_available "py_repr set" string
    \<comment> \<open>\<open>f"'{partitions_not_working}' {name} are not available."\<close>\<close>
  | AssertionError_eia860m_year int "int list"
    \<comment> \<open>the message of \<open>check_860m_date\<close>: the 860m year and the working eia860 years\<close>
  | ValueError_max_empty
    \<comment> \<open>\<open>max()\<close> of an empty sequence\<close>
  | ValueError_reference_year int "int list"
    \<comment> \<open>the message of \<open>check_reference_year\<close>: the year and the working years\<close>
  | TypeError_field string
    \<comment> \<open>pydantic's own error for a supplied value that is not of the field's type\<close>
  | ValidationError "error list"
    \<comment> \<open>what a constructor raises: the collected errors\<close>

subsection \<open>Field inputs\<close>

text \<open>
  A keyword argument of a constructor is absent, or present with a value of the field's
  type, or present with a value that pydantic's type coercion rejects.
\<close>

datatype 'a field_input = NotGiven | Given 'a | Invalid

fun validate_field ::
  "string \<Rightarrow> 'b \<Rightarrow> ('a \<Rightarrow> error + 'b) \<Rightarrow> 'a field_input \<Rightarrow> error list \<times> 'b option" where
  "validate_field name dflt validators NotGiven = ([], Some dflt)"
| "validate_field name dflt validators (Given v) =
     (case validators v of Inl e \<Rightarrow> ([e], None) | Inr v' \<Rightarrow> ([], Some v'))"
| "validate_field name dflt validators Invalid = ([TypeError_field name], None)"

text \<open>
  A field whose type is another model takes nothing, \<open>None\<close>, a dictionary of keyword
  arguments (validated by that model's constructor) or an object of the model.
\<close>

datatype ('kw, 'obj) raw = Absent | PyNone | Dict 'kw | Obj 'obj

fun validate_model_field ::
  "('kw \<Rightarrow> error + 'obj) \<Rightarrow> ('kw, 'obj) raw \<Rightarrow> error list \<times> 'obj option" where
  "validate_model_field init Absent = ([], None)"
| "validate_model_field init PyNone = ([], None)"
| "validate_model_field init (Dict kw) =
     (case init kw of Inl e \<Rightarrow> ([e], None) | Inr obj \<Rightarrow> ([], Some obj))"
| "validate_model_field init (Obj obj) = ([], Some obj)"

text \<open>
  Python truthiness of a raw value, as \<open>any(values.values())\<close> reads it: an absent key is
  not among the values, \<open>None\<close> and the empty dictionary are falsy, a model object is truthy.
\<close>

fun truthy :: "'kw \<Rightarrow> ('kw, 'obj) raw \<Rightarrow> bool" where
  "truthy no_kw Absent = False"
| "truthy no_kw PyNone = False"
| "truthy no_kw (Dict kw) = (kw \<noteq> no_kw)"
| "truthy no_kw (Obj obj) = True"

subsection \<open>GenericDatasetSettings\<close>

text \<open>
  The body of the loop of \<open>validate_partitions\<close> for one entry \<open>(name, working_partitions)\<close>
  of \<open>cls.working_partitions\<close>; \<open>partition = None\<close> is the \<open>KeyError\<close> of \<open>partitions[name]\<close>.
  \<open>list(set(partition) - set(working_partitions))\<close> has no fixed order, so the error keeps
  the set.
\<close>

definition validate_partition ::
  "string \<Rightarrow> ('a::linorder \<Rightarrow> py_repr) \<Rightarrow> string \<Rightarrow> 'a list \<Rightarrow> 'a list option \<Rightarrow> error + 'a list" where
  "validate_partition cls repr name working_partitions partition_opt =
     (case partition_opt of
        None \<Rightarrow> Inl (ValueError_missing_field cls name)
      | Some partition' \<Rightarrow>
          (let partitions_not_working = set partition' - set working_partitions in
           if partitions_not_working \<noteq> {}
           then Inl (ValueError_not_available (repr ` partitions_not_working) name)
           else Inr (sorted_list_of_set (set partition'))))"

text \<open>
  Every subclass has a \<open>working_partitions\<close> dictionary of two entries, in this order: a
  list of names under the key \<open>tables\<close> or \<open>states\<close>, then the list of \<open>years\<close>.  The loop
  stops at the first entry that raises.
\<close>

definition validate_partitions ::
  "string \<Rightarrow> string \<Rightarrow> string list \<Rightarrow> int list \<Rightarrow> string list option \<Rightarrow> int list option
     \<Rightarrow> error + (string list \<times> int list)" where
  "validate_partitions cls key names_working years_working names years =
     (case validate_partition cls ReprStr key names_working names of
        Inl e \<Rightarrow> Inl e
      | Inr names' \<Rightarrow>
          (case validate_partition cls ReprInt ''years'' years_working years of
             Inl e \<Rightarrow> Inl e
           | Inr years' \<Rightarrow> Inr (names', years')))"

text \<open>
  Construction of a subclass: the field \<open>years\<close>, then the field of names (with the
  subclass's validator, if it has one), then the subclass's other fields, whose errors are
  \<open>extra_errors\<close>, then the inherited root validator.
\<close>

definition GenericDatasetSettings_init ::
  "string \<Rightarrow> string \<Rightarrow> string list \<Rightarrow> int list \<Rightarrow> (string list \<Rightarrow> error + string list)
     \<Rightarrow> int list field_input \<Rightarrow> string list field_input \<Rightarrow> error list
     \<Rightarrow> error + (string list \<times> int list)" where
  "GenericDatasetSettings_init cls key names_working years_working names_validator
       years_in names_in extra_errors =
     (let (e1, years') = validate_field ''years'' years_working Inr years_in;
          (e2, names') = validate_field key names_working names_validator names_in
      in case validate_partitions cls key names_working years_working names' years' of
           Inl e \<Rightarrow> Inl (ValidationError (e1 @ e2 @ extra_errors @ [e]))
         | Inr p \<Rightarrow>
             if e1 @ e2 @ extra_errors = [] then Inr p
             else Inl (ValidationError (e1 @ e2 @ extra_errors)))"

subsection \<open>Ferc1Settings\<close>

record Ferc1Settings =
  years :: "int list"
  tables :: "string list"

definition Ferc1Settings_working_tables :: "string list" where
  "Ferc1Settings_working_tables = sort
     [''fuel_ferc1'', ''plants_steam_ferc1'', ''plants_small_ferc1'', ''plants_hydro_ferc1'',
      ''plants_pumped_storage_ferc1'', ''purchased_power_ferc1'', ''plant_in_service_ferc1'']"

definition Ferc1Settings_init ::
  "constants \<Rightarrow> int list field_input \<Rightarrow> string list field_input \<Rightarrow> error + Ferc1Settings" where
  "Ferc1Settings_init pc years_in tables_in =
     (case GenericDatasetSettings_init ''Ferc1Settings'' ''tables''
             Ferc1Settings_working_tables (ferc1_years pc) Inr years_in tables_in [] of
        Inl e \<Rightarrow> Inl e
      | Inr (t, y) \<Rightarrow> Inr \<lparr>Ferc1Settings.years = y, tables = t\<rparr>)"

subsection \<open>Eia860Settings\<close>

record Eia860Settings =
  years :: "int list"
  tables :: "string list"
  eia860m :: bool

definition Eia860Settings_working_tables :: "string list" where
  "Eia860Settings_working_tables = sort
     [''boiler_generator_assn_eia860'', ''utilities_eia860'', ''plants_eia860'',
      ''generators_eia860'', ''ownership_eia860'']"

definition eia860m_date :: string where
  "eia860m_date = ''2020-11''"

text \<open>
  \<open>pd.to_datetime(s).year\<close> for a date written \<open>YYYY-MM\<close>: the decimal number before the
  first hyphen.
\<close>

definition to_datetime_year :: "string \<Rightarrow> int" where
  "to_datetime_year s =
     foldl (\<lambda>n c. 10 * n + (int (of_char c) - 48)) 0 (takeWhile (\<lambda>c. c \<noteq> CHR ''-'') s)"

definition py_max :: "int list \<Rightarrow> error + int" where
  "py_max xs = (if xs = [] then Inl ValueError_max_empty else Inr (Max (set xs)))"

text \<open>\<open>and\<close> evaluates \<open>max(...)\<close> only when \<open>eia860m\<close> is true.\<close>

definition check_860m_date :: "constants \<Rightarrow> bool \<Rightarrow> error + bool" where
  "check_860m_date pc eia860m' =
     (let eia860m_year = to_datetime_year eia860m_date in
      if eia860m' then
        (case py_max (eia860_years pc) of
           Inl e \<Rightarrow> Inl e
         | Inr m \<Rightarrow>
             if eia860m_year \<noteq> m + 1
             then Inl (AssertionError_eia860m_year eia860m_year (eia860_years pc))
             else Inr eia860m')
      else Inr eia860m')"

definition Eia860Settings_init ::
  "constants \<Rightarrow> int list field_input \<Rightarrow> string list field_input \<Rightarrow> bool field_input
     \<Rightarrow> error + Eia860Settings" where
  "Eia860Settings_init pc years_in tables_in eia860m_in =
     (let (e3, m) = validate_field ''eia860m'' False (check_860m_date pc) eia860m_in
      in case GenericDatasetSettings_init ''Eia860Settings'' ''tables''
                Eia860Settings_working_tables (eia860_years pc) Inr years_in tables_in e3 of
           Inl e \<Rightarrow> Inl e
         | Inr (t, y) \<Rightarrow>
             (case m of
                None \<Rightarrow> Inl (ValidationError e3)
              | Some b \<Rightarrow> Inr \<lparr>Eia860Settings.years = y, tables = t, eia860m = b\<rparr>))"

subsection \<open>Eia923Settings\<close>

record Eia923Settings =
  years :: "int list"
  tables :: "string list"

definition Eia923Settings_working_tables :: "string list" where
  "Eia923Settings_working_tables = sort
     [''generation_fuel_eia923'', ''boiler_fuel_eia923'', ''generation_eia923'',
      ''coalmine_eia923'', ''fuel_receipts_costs_eia923'']"

definition Eia923Settings_init ::
  "constants \<Rightarrow> int list field_input \<Rightarrow> string list field_input \<Rightarrow> error + Eia923Settings" where
  "Eia923Settings_init pc years_in tables_in =
     (case GenericDatasetSettings_init ''Eia923Settings'' ''tables''
             Eia923Settings_working_tables (eia923_years pc) Inr years_in tables_in [] of
        Inl e \<Rightarrow> Inl e
      | Inr (t, y) \<Rightarrow> Inr \<lparr>Eia923Settings.years = y, tables = t\<rparr>)"

subsection \<open>GlueSettings\<close>

record GlueSettings =
  eia :: bool
  ferc1 :: bool

definition GlueSettings_init :: "bool field_input \<Rightarrow> bool field_input \<Rightarrow> error + GlueSettings" where
  "GlueSettings_init eia_in ferc1_in =
     (let (e1, eia') = validate_field ''eia'' True Inr eia_in;
          (e2, ferc1') = validate_field ''ferc1'' True Inr ferc1_in
      in case (eia', ferc1') of
           (Some a, Some b) \<Rightarrow> Inr \<lparr>GlueSettings.eia = a, ferc1 = b\<rparr>
         | _ \<Rightarrow> Inl (ValidationError (e1 @ e2)))"

subsection \<open>EpaCemsSettings\<close>

record EpaCemsSettings =
  years :: "int list"
  states :: "string list"

definition EpaCemsSettings_working_states :: "constants \<Rightarrow> string list" where
  "EpaCemsSettings_working_states pc = sorted_list_of_set (set (EPACEMS_STATES pc))"

definition allow_all_keyword :: "constants \<Rightarrow> string list \<Rightarrow> string list" where
  "allow_all_keyword pc states' =
     (if states' = [''all''] then EpaCemsSettings_working_states pc else states')"

definition EpaCemsSettings_init ::
  "constants \<Rightarrow> int list field_input \<Rightarrow> string list field_input \<Rightarrow> error + EpaCemsSettings" where
  "EpaCemsSettings_init pc years_in states_in =
     (case GenericDatasetSettings_init ''EpaCemsSettings'' ''states''
             (EpaCemsSettings_working_states pc) (epacems_years pc)
             (\<lambda>states'. Inr (allow_all_keyword pc states')) years_in states_in [] of
        Inl e \<Rightarrow> Inl e
      | Inr (s, y) \<Rightarrow> Inr \<lparr>EpaCemsSettings.years = y, states = s\<rparr>)"

subsection \<open>Ferc1ToSqliteSettings\<close>

definition check_reference_year :: "constants \<Rightarrow> int \<Rightarrow> error + int" where
  "check_reference_year pc refyear' =
     (if refyear' \<notin> set (ferc1_years pc)
      then Inl (ValueError_reference_year refyear' (ferc1_years pc))
      else Inr refyear')"

record Ferc1ToSqliteSettings =
  years :: "int list"
  tables :: "string list"
  refyear :: int
  bad_cols :: "(string \<times> string) list"

definition Ferc1ToSqliteSettings_working_tables :: "constants \<Rightarrow> string list" where
  "Ferc1ToSqliteSettings_working_tables pc = sort (DBF_TABLES_FILENAMES_keys pc)"

text \<open>
  The default of \<open>refyear\<close> is \<open>max(working_partitions["years"])\<close>, computed in the class
  body; with no working year the class body itself raises, which is the first case.
\<close>

definition Ferc1ToSqliteSettings_init ::
  "constants \<Rightarrow> int list field_input \<Rightarrow> string list field_input \<Rightarrow> int field_input
     \<Rightarrow> (string \<times> string) list field_input \<Rightarrow> error + Ferc1ToSqliteSettings" where
  "Ferc1ToSqliteSettings_init pc years_in tables_in refyear_in bad_cols_in =
     (case py_max (ferc1_years pc) of
        Inl e \<Rightarrow> Inl e
      | Inr refyear_default \<Rightarrow>
          (let (e3, r) = validate_field ''refyear'' refyear_default (check_reference_year pc)
                           refyear_in;
               (e4, b) = validate_field ''bad_cols'' [] Inr bad_cols_in
           in case GenericDatasetSettings_init ''Ferc1ToSqliteSettings'' ''tables''
                     (Ferc1ToSqliteSettings_working_tables pc) (ferc1_years pc) Inr
                     years_in tables_in (e3 @ e4) of
                Inl e \<Rightarrow> Inl e
              | Inr (t, y) \<Rightarrow>
                  (case (r, b) of
                     (Some r', Some b') \<Rightarrow>
                       Inr \<lparr>Ferc1ToSqliteSettings.years = y, tables = t, refyear = r',
                            bad_cols = b'\<rparr>
                   | _ \<Rightarrow> Inl (ValidationError (e3 @ e4)))))"

subsection \<open>EiaSettings\<close>

record EiaSettings =
  eia860 :: "Eia860Settings option"
  eia923 :: "Eia923Settings option"

type_synonym Eia860_kwargs = "int list field_input \<times> string list field_input \<times> bool field_input"
type_synonym Eia923_kwargs = "int list field_input \<times> string list field_input"

text \<open>
  \<open>values.get(k)\<close> is \<open>None\<close> for a key that is missing or holds \<open>None\<close>; a model object is
  truthy.  The two conditions read the local variables taken before the first assignment.
\<close>

definition check_eia_dependencies :: "constants \<Rightarrow> EiaSettings \<Rightarrow> error + EiaSettings" where
  "check_eia_dependencies pc values =
     (let eia923' = EiaSettings.eia923 values;
          eia860' = EiaSettings.eia860 values
      in case (case (eia923', eia860') of
                 (None, Some e860) \<Rightarrow>
                   (case Eia923Settings_init pc (Given (Eia860Settings.years e860))
                           (Given [''boiler_fuel_eia923'', ''generation_eia923'']) of
                      Inl e \<Rightarrow> Inl e
                    | Inr new \<Rightarrow> Inr (values\<lparr>eia923 := Some new\<rparr>))
               | _ \<Rightarrow> Inr values) of
           Inl e \<Rightarrow> Inl e
         | Inr values1 \<Rightarrow>
             (case (eia923', eia860') of
                (Some e923, None) \<Rightarrow>
                  (case Eia860Settings_init pc (Given (Eia923Settings.years e923))
                          NotGiven NotGiven of
                     Inl e \<Rightarrow> Inl e
                   | Inr new \<Rightarrow> Inr (values1\<lparr>eia860 := Some new\<rparr>))
              | _ \<Rightarrow> Inr values1))"

definition EiaSettings_init ::
  "constants \<Rightarrow> (Eia860_kwargs, Eia860Settings) raw \<Rightarrow> (Eia923_kwargs, Eia923Settings) raw
     \<Rightarrow> error + EiaSettings" where
  "EiaSettings_init pc eia860_in eia923_in =
     (let (e1, eia860') =
            validate_model_field (\<lambda>(y, t, m). Eia860Settings_init pc y t m) eia860_in;
          (e2, eia923') =
            validate_model_field (\<lambda>(y, t). Eia923Settings_init pc y t) eia923_in
      in case check_eia_dependencies pc \<lparr>eia860 = eia860', eia923 = eia923'\<rparr> of
           Inl e \<Rightarrow> Inl (ValidationError (e1 @ e2 @ [e]))
         | Inr values \<Rightarrow>
             if e1 @ e2 = [] then Inr values else Inl (ValidationError (e1 @ e2)))"

subsection \<open>DatasetsSettings\<close>

record DatasetsSettings =
  ferc1 :: "Ferc1Settings option"
  eia :: "EiaSettings option"
  glue :: "GlueSettings option"
  epacems :: "EpaCemsSettings option"

type_synonym Ferc1_kwargs = "int list field_input \<times> string list field_input"
type_synonym Eia_kwargs =
  "(Eia860_kwargs, Eia860Settings) raw \<times> (Eia923_kwargs, Eia923Settings) raw"
type_synonym Glue_kwargs = "bool field_input \<times> bool field_input"
type_synonym EpaCems_kwargs = "int list field_input \<times> string list field_input"

type_synonym raw_values =
  "(Ferc1_kwargs, Ferc1Settings) raw \<times> (Eia_kwargs, EiaSettings) raw
     \<times> (Glue_kwargs, GlueSettings) raw \<times> (EpaCems_kwargs, EpaCemsSettings) raw"

text \<open>The pre root validator: it reads and rewrites the raw keyword arguments.\<close>

definition default_load_all :: "constants \<Rightarrow> raw_values \<Rightarrow> error + raw_values" where
  "default_load_all pc values =
     (case values of (ferc1_v, eia_v, glue_v, epacems_v) \<Rightarrow>
        if \<not> (truthy (NotGiven, NotGiven) ferc1_v \<or> truthy (Absent, Absent) eia_v
               \<or> truthy (NotGiven, NotGiven) glue_v \<or> truthy (NotGiven, NotGiven) epacems_v)
        then
          (case Ferc1Settings_init pc NotGiven NotGiven of
             Inl e \<Rightarrow> Inl e
           | Inr f \<Rightarrow>
               (case EiaSettings_init pc Absent Absent of
                  Inl e \<Rightarrow> Inl e
                | Inr e \<Rightarrow> Inr (Obj f, Obj e, glue_v, epacems_v)))
        else Inr values)"

definition add_glue_settings :: "DatasetsSettings \<Rightarrow> error + DatasetsSettings" where
  "add_glue_settings values =
     (if DatasetsSettings.ferc1 values \<noteq> None \<and> DatasetsSettings.eia values \<noteq> None
      then (case GlueSettings_init NotGiven NotGiven of
              Inl e \<Rightarrow> Inl e
            | Inr g \<Rightarrow> Inr (values\<lparr>glue := Some g\<rparr>))
      else Inr values)"

text \<open>An error of the pre root validator ends validation at once.\<close>

definition DatasetsSettings_init ::
  "constants \<Rightarrow> (Ferc1_kwargs, Ferc1Settings) raw \<Rightarrow> (Eia_kwargs, EiaSettings) raw
     \<Rightarrow> (Glue_kwargs, GlueSettings) raw \<Rightarrow> (EpaCems_kwargs, EpaCemsSettings) raw
     \<Rightarrow> error + DatasetsSettings" where
  "DatasetsSettings_init pc ferc1_in eia_in glue_in epacems_in =
     (case default_load_all pc (ferc1_in, eia_in, glue_in, epacems_in) of
        Inl e \<Rightarrow> Inl (ValidationError [e])
      | Inr (ferc1_v, eia_v, glue_v, epacems_v) \<Rightarrow>
          (let (e1, f) = validate_model_field (\<lambda>(y, t). Ferc1Settings_init pc y t) ferc1_v;
               (e2, e) = validate_model_field (\<lambda>(a, b). EiaSettings_init pc a b) eia_v;
               (e3, g) = validate_model_field (\<lambda>(a, b). GlueSettings_init a b) glue_v;
               (e4, c) = validate_model_field (\<lambda>(y, s). EpaCemsSettings_init pc y s) epacems_v
           in case add_glue_settings \<lparr>ferc1 = f, eia = e, glue = g, epacems = c\<rparr> of
                Inl err \<Rightarrow> Inl (ValidationError (e1 @ e2 @ e3 @ e4 @ [err]))
              | Inr values \<Rightarrow>
                  if e1 @ e2 @ e3 @ e4 = [] then Inr values
                  else Inl (ValidationError (e1 @ e2 @ e3 @ e4))))"

section \<open>Migration 994e1c2027c0 (migrations/versions)\<close>

text \<open>
  The migration runs against a database supplied by Alembic.  Of the database only the
  schema matters here: for each table, the list of its columns.  Adding a column to a
  table that already has one of that name, dropping a column that the table does not have,
  and altering a table that does not exist are errors of the database.
\<close>

datatype sa_type = Text | Enum "string list"

record column =
  col_name :: string
  col_type :: sa_type
  nullable :: bool
  comment :: string

type_synonym schema = "string \<rightharpoonup> column list"

datatype db_error =
    NoSuchTable string
  | DuplicateColumn string string
  | NoSuchColumn string string

datatype operation = add_column column | drop_column string

fun apply_operation :: "string \<Rightarrow> operation \<Rightarrow> schema \<Rightarrow> db_error + schema" where
  "apply_operation t (add_column c) db =
     (case db t of
        None \<Rightarrow> Inl (NoSuchTable t)
      | Some cols \<Rightarrow>
          if col_name c \<in> col_name ` set cols then Inl (DuplicateColumn t (col_name c))
          else Inr (db(t \<mapsto> cols @ [c])))"
| "apply_operation t (drop_column n) db =
     (case db t of
        None \<Rightarrow> Inl (NoSuchTable t)
      | Some cols \<Rightarrow>
          if n \<notin> col_name ` set cols then Inl (NoSuchColumn t n)
          else Inr (db(t \<mapsto> filter (\<lambda>c. col_name c \<noteq> n) cols)))"

fun batch_alter_table :: "string \<Rightarrow> operation list \<Rightarrow> schema \<Rightarrow> db_error + schema" where
  "batch_alter_table t [] db = Inr db"
| "batch_alter_table t (x # xs) db =
     (case apply_operation t x db of
        Inl e \<Rightarrow> Inl e
      | Inr db' \<Rightarrow> batch_alter_table t xs db')"

fun run_migration :: "(string \<times> operation list) list \<Rightarrow> schema \<Rightarrow> db_error + schema" where
  "run_migration [] db = Inr db"
| "run_migration ((t, ops) # rest) db =
     (case batch_alter_table t ops db of
        Inl e \<Rightarrow> Inl e
      | Inr db' \<Rightarrow> run_migration rest db')"

definition ferc_account :: column where
  "ferc_account =
     \<lparr>col_name = ''ferc_account'', col_type = Text, nullable = True,
      comment = ''Actual FERC Account number (e.g. '359.1') if available, or a PUDL assigned ID when FERC accounts have been split or combined in reporting.''\<rparr>"

definition row_type_xbrl :: column where
  "row_type_xbrl =
     \<lparr>col_name = ''row_type_xbrl'', col_type = Enum [''calculated_value'', ''reported_value''],
      nullable = True,
      comment = ''Indicates whether the value reported in the row is calculated, or uniquely reported within the table.''\<rparr>"

definition upgrade_commands :: "(string \<times> operation list) list" where
  "upgrade_commands =
     [(''denorm_electric_operating_revenues_ferc1'',
         [add_column ferc_account, add_column row_type_xbrl]),
      (''electric_operating_revenues_ferc1'',
         [add_column ferc_account, add_column row_type_xbrl])]"

definition downgrade_commands :: "(string \<times> operation list) list" where
  "downgrade_commands =
     [(''electric_operating_revenues_ferc1'',
         [drop_column ''row_type_xbrl'', drop_column ''ferc_account'']),
      (''denorm_electric_operating_revenues_ferc1'',
         [drop_column ''row_type_xbrl'', drop_column ''ferc_account''])]"

definition upgrade :: "schema \<Rightarrow> db_error + schema" where
  "upgrade = run_migration upgrade_commands"

definition downgrade :: "schema \<Rightarrow> db_error + schema" where
  "downgrade = run_migration downgrade_commands"

fun added_columns :: "(string \<times> operation list) list \<Rightarrow> (string \<times> string) list" where
  "added_columns cmds = [(t, col_name c). (t, ops) \<leftarrow> cmds, add_column c \<leftarrow> ops]"

fun dropped_columns :: "(string \<times> operation list) list \<Rightarrow> (string \<times> string) list" where
  "dropped_columns cmds = [(t, n). (t, ops) \<leftarrow> cmds, drop_column n \<leftarrow> ops]"

section \<open>Sample constants\<close>

text \<open>
  Sample values for the imported constants, on which the definitions are evaluated: three
  working years per dataset, the last eia860 year one before the 860m year, and a state
  list with a repetition.
\<close>

definition pc_example :: constants where
  "pc_example =
     \<lparr>ferc1_years = [2017, 2018, 2019],
      eia860_years = [2017, 2018, 2019],
      eia923_years = [2017, 2018, 2019],
      epacems_years = [2018, 2019],
      EPACEMS_STATES = [''TX'', ''CA'', ''NY'', ''CA''],
      DBF_TABLES_FILENAMES_keys = [''f1_steam'', ''f1_fuel'']\<rparr>"

text \<open>
  A sample schema: the two tables of the migration, each with columns of other names.
\<close>

definition record_id :: column where
  "record_id = \<lparr>col_name = ''record_id'', col_type = Text, nullable = False, comment = []\<rparr>"

definition revenue_type :: column where
  "revenue_type =
     \<lparr>col_name = ''revenue_type'', col_type = Text, nullable = True, comment = []\<rparr>"

definition schema_example :: schema where
  "schema_example =
     [''denorm_electric_operating_revenues_ferc1'' \<mapsto> [record_id, revenue_type],
      ''electric_operating_revenues_ferc1'' \<mapsto> [record_id]]"

section \<open>Properties of the settings constructors\<close>

subsection \<open>The root validator and the constructors, case by case\<close>

lemma validate_partition_Some:
  "validate_partition cls repr name w (Some p) =
     (if set p \<subseteq> set w then Inr (sorted_list_of_set (set p))
      else Inl (ValueError_not_available (repr ` (set p - set w)) name))"
  by (auto simp: validate_partition_def Let_def)

lemma validate_partition_None:
  "validate_partition cls repr name w None = Inl (ValueError_missing_field cls name)"
  by (simp add: validate_partition_def)

lemma validate_partition_Inr:
  "validate_partition cls repr name w po = Inr r \<longleftrightarrow>
     (\<exists>p. po = Some p \<and> set p \<subseteq> set w \<and> r = sorted_list_of_set (set p))"
  by (cases po) (auto simp: validate_partition_Some validate_partition_None)

lemma validate_partitions_Inr:
  "validate_partitions cls key nw yw no yo = Inr (t, y) \<longleftrightarrow>
     (\<exists>ts ys. no = Some ts \<and> yo = Some ys \<and> set ts \<subseteq> set nw \<and> set ys \<subseteq> set yw
        \<and> t = sorted_list_of_set (set ts) \<and> y = sorted_list_of_set (set ys))"
proof (cases no; cases yo)
qed (auto simp: validate_partitions_def validate_partition_Some validate_partition_None
       split: if_splits)

lemma validate_partitions_Some:
  "validate_partitions cls key nw yw (Some ts) (Some ys) =
     (if \<not> set ts \<subseteq> set nw
      then Inl (ValueError_not_available (ReprStr ` (set ts - set nw)) key)
      else if \<not> set ys \<subseteq> set yw
      then Inl (ValueError_not_available (ReprInt ` (set ys - set yw)) ''years'')
      else Inr (sorted_list_of_set (set ts), sorted_list_of_set (set ys)))"
  by (simp add: validate_partitions_def validate_partition_Some)

lemma validate_field_cases:
  "validate_field name d v i = (es, r) \<Longrightarrow> (es = [] \<and> r \<noteq> None) \<or> (es \<noteq> [] \<and> r = None)"
  by (cases i) (auto split: sum.splits)

lemma GenericDatasetSettings_init_Inr:
  "GenericDatasetSettings_init cls key nw yw nv yi ni ex = Inr (t, y) \<longleftrightarrow>
     ex = [] \<and> (\<exists>ts ys. validate_field ''years'' yw Inr yi = ([], Some ys)
        \<and> validate_field key nw nv ni = ([], Some ts)
        \<and> set ts \<subseteq> set nw \<and> set ys \<subseteq> set yw
        \<and> t = sorted_list_of_set (set ts) \<and> y = sorted_list_of_set (set ys))"
proof -
  obtain e1 yo where f1: "validate_field ''years'' yw Inr yi = (e1, yo)" by force
  obtain e2 no where f2: "validate_field key nw nv ni = (e2, no)" by force
  note c1 = validate_field_cases [OF f1] and c2 = validate_field_cases [OF f2]
  show ?thesis
  proof (cases "validate_partitions cls key nw yw no yo")
    case (Inl e)
    then have "\<not> (\<exists>ts ys. no = Some ts \<and> yo = Some ys \<and> set ts \<subseteq> set nw \<and> set ys \<subseteq> set yw)"
      by (auto simp: validate_partitions_Some)
    with Inl show ?thesis
      by (auto simp: GenericDatasetSettings_init_def f1 f2)
  next
    case (Inr p)
    obtain t' y' where p: "p = (t', y')" by force
    from Inr [unfolded p validate_partitions_Inr] c1 c2 show ?thesis
      by (auto simp: GenericDatasetSettings_init_def f1 f2 Inr p)
  qed
qed


lemma validate_field_Inr_ok:
  "validate_field name d Inr i = ([], Some v) \<longleftrightarrow> (i = NotGiven \<and> v = d) \<or> i = Given v"
  by (cases i) auto

lemma wrap_Inr_iff:
  "(case G of Inl e \<Rightarrow> Inl e | Inr (t, y) \<Rightarrow> Inr (mk t y)) = Inr s \<longleftrightarrow>
     (\<exists>t y. G = Inr (t, y) \<and> s = mk t y)"
  by (auto split: sum.splits prod.splits)

lemma Ferc1Settings_init_Inr:
  "Ferc1Settings_init pc yi ti = Inr s \<longleftrightarrow>
     (\<exists>ts ys. validate_field ''years'' (ferc1_years pc) Inr yi = ([], Some ys)
        \<and> validate_field ''tables'' Ferc1Settings_working_tables Inr ti = ([], Some ts)
        \<and> set ts \<subseteq> set Ferc1Settings_working_tables \<and> set ys \<subseteq> set (ferc1_years pc)
        \<and> s = \<lparr>Ferc1Settings.years = sorted_list_of_set (set ys),
               tables = sorted_list_of_set (set ts)\<rparr>)"
  unfolding Ferc1Settings_init_def wrap_Inr_iff GenericDatasetSettings_init_Inr by blast

lemma Eia923Settings_init_Inr:
  "Eia923Settings_init pc yi ti = Inr s \<longleftrightarrow>
     (\<exists>ts ys. validate_field ''years'' (eia923_years pc) Inr yi = ([], Some ys)
        \<and> validate_field ''tables'' Eia923Settings_working_tables Inr ti = ([], Some ts)
        \<and> set ts \<subseteq> set Eia923Settings_working_tables \<and> set ys \<subseteq> set (eia923_years pc)
        \<and> s = \<lparr>Eia923Settings.years = sorted_list_of_set (set ys),
               tables = sorted_list_of_set (set ts)\<rparr>)"
  unfolding Eia923Settings_init_def wrap_Inr_iff GenericDatasetSettings_init_Inr by blast

lemma EpaCemsSettings_init_Inr:
  "EpaCemsSettings_init pc yi si = Inr s \<longleftrightarrow>
     (\<exists>ts ys. validate_field ''years'' (epacems_years pc) Inr yi = ([], Some ys)
        \<and> validate_field ''states'' (EpaCemsSettings_working_states pc)
             (\<lambda>x. Inr (allow_all_keyword pc x)) si = ([], Some ts)
        \<and> set ts \<subseteq> set (EpaCemsSettings_working_states pc) \<and> set ys \<subseteq> set (epacems_years pc)
        \<and> s = \<lparr>EpaCemsSettings.years = sorted_list_of_set (set ys),
               states = sorted_list_of_set (set ts)\<rparr>)"
  unfolding EpaCemsSettings_init_def wrap_Inr_iff GenericDatasetSettings_init_Inr by blast

lemma wrap_Some_Inr_iff:
  "(case G of Inl e \<Rightarrow> Inl e
    | Inr (t, y) \<Rightarrow> (case Some b of None \<Rightarrow> Inl e' | Some b' \<Rightarrow> Inr (mk t y b'))) = Inr s \<longleftrightarrow>
     (\<exists>t y. G = Inr (t, y) \<and> s = mk t y b)"
  by (auto split: sum.splits prod.splits)

lemma wrap_gen:
  "(case G of Inl e \<Rightarrow> Inl e | Inr p \<Rightarrow> h p) = Inr s \<longleftrightarrow>
     (\<exists>t y. G = Inr (t, y) \<and> h (t, y) = Inr s)"
  by (auto split: sum.splits)

lemma wrap_Inl:
  "\<forall>t y. G \<noteq> Inr (t, y) \<Longrightarrow> (case G of Inl e \<Rightarrow> Inl e | Inr (t, y) \<Rightarrow> h t y) \<noteq> Inr s"
  by (auto split: sum.splits prod.splits)

lemma Eia860Settings_init_Inr:
  "Eia860Settings_init pc yi ti mi = Inr s \<longleftrightarrow>
     (\<exists>ts ys b. validate_field ''eia860m'' False (check_860m_date pc) mi = ([], Some b)
        \<and> validate_field ''years'' (eia860_years pc) Inr yi = ([], Some ys)
        \<and> validate_field ''tables'' Eia860Settings_working_tables Inr ti = ([], Some ts)
        \<and> set ts \<subseteq> set Eia860Settings_working_tables \<and> set ys \<subseteq> set (eia860_years pc)
        \<and> s = \<lparr>Eia860Settings.years = sorted_list_of_set (set ys),
               tables = sorted_list_of_set (set ts), eia860m = b\<rparr>)"
proof -
  obtain e3 m where f3: "validate_field ''eia860m'' False (check_860m_date pc) mi = (e3, m)"
    by force
  from validate_field_cases [OF f3]
  consider (ok) b where "e3 = []" "m = Some b" | (bad) "e3 \<noteq> []" "m = None"
    by auto
  then show ?thesis
  proof cases
    case ok
    show ?thesis
      unfolding Eia860Settings_init_def f3 ok prod.case Let_def wrap_Some_Inr_iff
        GenericDatasetSettings_init_Inr
      by auto
  next
    case bad
    have "\<forall>t y. GenericDatasetSettings_init ''Eia860Settings'' ''tables''
             Eia860Settings_working_tables (eia860_years pc) Inr yi ti e3 \<noteq> Inr (t, y)"
      using bad by (simp add: GenericDatasetSettings_init_Inr)
    from wrap_Inl [OF this] show ?thesis
      unfolding Eia860Settings_init_def f3 bad prod.case Let_def by simp
  qed
qed

lemma Ferc1ToSqliteSettings_init_Inr:
  "Ferc1ToSqliteSettings_init pc yi ti ri bi = Inr s \<longleftrightarrow>
     ferc1_years pc \<noteq> [] \<and>
     (\<exists>ts ys r b.
          validate_field ''refyear'' (Max (set (ferc1_years pc))) (check_reference_year pc) ri
            = ([], Some r)
        \<and> validate_field ''bad_cols'' [] Inr bi = ([], Some b)
        \<and> validate_field ''years'' (ferc1_years pc) Inr yi = ([], Some ys)
        \<and> validate_field ''tables'' (Ferc1ToSqliteSettings_working_tables pc) Inr ti
            = ([], Some ts)
        \<and> set ts \<subseteq> set (Ferc1ToSqliteSettings_working_tables pc)
        \<and> set ys \<subseteq> set (ferc1_years pc)
        \<and> s = \<lparr>Ferc1ToSqliteSettings.years = sorted_list_of_set (set ys),
               tables = sorted_list_of_set (set ts), refyear = r, bad_cols = b\<rparr>)"
proof (cases "ferc1_years pc = []")
  case True
  then show ?thesis by (simp add: Ferc1ToSqliteSettings_init_def py_max_def)
next
  case False
  obtain e3 r where f3: "validate_field ''refyear'' (Max (set (ferc1_years pc)))
                           (check_reference_year pc) ri = (e3, r)"
    by force
  obtain e4 b where f4: "validate_field ''bad_cols'' [] Inr bi = (e4, b)"
    by force
  from validate_field_cases [OF f3] validate_field_cases [OF f4]
  consider (ok) r' b' where "e3 = []" "r = Some r'" "e4 = []" "b = Some b'"
    | (bad) "e3 @ e4 \<noteq> []" "r = None \<or> b = None"
    by auto
  then show ?thesis
  proof cases
    case ok
    show ?thesis
      by (simp add: Ferc1ToSqliteSettings_init_def py_max_def False f3 f4 ok Let_def wrap_gen
            GenericDatasetSettings_init_Inr) blast
  next
    case bad
    obtain e where G: "GenericDatasetSettings_init ''Ferc1ToSqliteSettings'' ''tables''
             (Ferc1ToSqliteSettings_working_tables pc) (ferc1_years pc) Inr yi ti (e3 @ e4)
               = Inl e"
      using bad
      by (cases "GenericDatasetSettings_init ''Ferc1ToSqliteSettings'' ''tables''
             (Ferc1ToSqliteSettings_working_tables pc) (ferc1_years pc) Inr yi ti (e3 @ e4)")
         (auto simp: GenericDatasetSettings_init_Inr)
    have "Ferc1ToSqliteSettings_init pc yi ti ri bi = Inl e"
      by (simp add: Ferc1ToSqliteSettings_init_def py_max_def False f3 f4 G)
    with bad show ?thesis
      by (auto simp: f3 f4)
  qed
qed


subsection \<open>Partition fields are sorted and free of duplicates\<close>

text \<open>
  Claim C8.  Whenever the constructor of one of the five dataset-settings classes returns
  an object, each of its partition fields (\<open>years\<close>, and \<open>tables\<close> or \<open>states\<close>) is in
  ascending order and has no duplicates, whatever the order and the repetitions of the
  requested list.
\<close>

theorem partition_fields_sorted_distinct:
  "(Ferc1Settings_init pc y1 t1 = Inr s1 \<longrightarrow>
      sorted (Ferc1Settings.years s1) \<and> distinct (Ferc1Settings.years s1)
      \<and> sorted (Ferc1Settings.tables s1) \<and> distinct (Ferc1Settings.tables s1))
   \<and> (Eia860Settings_init pc y2 t2 m2 = Inr s2 \<longrightarrow>
      sorted (Eia860Settings.years s2) \<and> distinct (Eia860Settings.years s2)
      \<and> sorted (Eia860Settings.tables s2) \<and> distinct (Eia860Settings.tables s2))
   \<and> (Eia923Settings_init pc y3 t3 = Inr s3 \<longrightarrow>
      sorted (Eia923Settings.years s3) \<and> distinct (Eia923Settings.years s3)
      \<and> sorted (Eia923Settings.tables s3) \<and> distinct (Eia923Settings.tables s3))
   \<and> (EpaCemsSettings_init pc y4 t4 = Inr s4 \<longrightarrow>
      sorted (EpaCemsSettings.years s4) \<and> distinct (EpaCemsSettings.years s4)
      \<and> sorted (EpaCemsSettings.states s4) \<and> distinct (EpaCemsSettings.states s4))
   \<and> (Ferc1ToSqliteSettings_init pc y5 t5 r5 b5 = Inr s5 \<longrightarrow>
      sorted (Ferc1ToSqliteSettings.years s5) \<and> distinct (Ferc1ToSqliteSettings.years s5)
      \<and> sorted (Ferc1ToSqliteSettings.tables s5) \<and> distinct (Ferc1ToSqliteSettings.tables s5))"
proof (intro conjI impI)
  assume "Ferc1Settings_init pc y1 t1 = Inr s1"
  then obtain ts ys where "s1 = \<lparr>Ferc1Settings.years = sorted_list_of_set (set ys),
      tables = sorted_list_of_set (set ts)\<rparr>"
    unfolding Ferc1Settings_init_Inr by blast
  then show "sorted (Ferc1Settings.years s1)" "distinct (Ferc1Settings.years s1)"
    "sorted (Ferc1Settings.tables s1)" "distinct (Ferc1Settings.tables s1)"
    by simp_all
next
  assume "Eia860Settings_init pc y2 t2 m2 = Inr s2"
  then obtain ts ys b where "s2 = \<lparr>Eia860Settings.years = sorted_list_of_set (set ys),
      tables = sorted_list_of_set (set ts), eia860m = b\<rparr>"
    unfolding Eia860Settings_init_Inr by blast
  then show "sorted (Eia860Settings.years s2)" "distinct (Eia860Settings.years s2)"
    "sorted (Eia860Settings.tables s2)" "distinct (Eia860Settings.tables s2)"
    by simp_all
next
  assume "Eia923Settings_init pc y3 t3 = Inr s3"
  then obtain ts ys where "s3 = \<lparr>Eia923Settings.years = sorted_list_of_set (set ys),
      tables = sorted_list_of_set (set ts)\<rparr>"
    unfolding Eia923Settings_init_Inr by blast
  then show "sorted (Eia923Settings.years s3)" "distinct (Eia923Settings.years s3)"
    "sorted (Eia923Settings.tables s3)" "distinct (Eia923Settings.tables s3)"
    by simp_all
next
  assume "EpaCemsSettings_init pc y4 t4 = Inr s4"
  then obtain ts ys where "s4 = \<lparr>EpaCemsSettings.years = sorted_list_of_set (set ys),
      states = sorted_list_of_set (set ts)\<rparr>"
    unfolding EpaCemsSettings_init_Inr by blast
  then show "sorted (EpaCemsSettings.years s4)" "distinct (EpaCemsSettings.years s4)"
    "sorted (EpaCemsSettings.states s4)" "distinct (EpaCemsSettings.states s4)"
    by simp_all
next
  assume "Ferc1ToSqliteSettings_init pc y5 t5 r5 b5 = Inr s5"
  then obtain ts ys r b where "s5 = \<lparr>Ferc1ToSqliteSettings.years = sorted_list_of_set (set ys),
      tables = sorted_list_of_set (set ts), refyear = r, bad_cols = b\<rparr>"
    unfolding Ferc1ToSqliteSettings_init_Inr by blast
  then show "sorted (Ferc1ToSqliteSettings.years s5)" "distinct (Ferc1ToSqliteSettings.years s5)"
    "sorted (Ferc1ToSqliteSettings.tables s5)" "distinct (Ferc1ToSqliteSettings.tables s5)"
    by simp_all
qed

text \<open>
  The five constructors on unsorted requests with repetitions: each returns an object, and
  its fields are sorted and distinct.
\<close>

theorem partition_fields_sorted_distinct_witness:
  "Ferc1Settings_init pc_example (Given [2019, 2017, 2019])
       (Given [''plants_steam_ferc1'', ''fuel_ferc1'', ''plants_steam_ferc1''])
     = Inr \<lparr>Ferc1Settings.years = [2017, 2019],
            tables = [''fuel_ferc1'', ''plants_steam_ferc1'']\<rparr>
   \<and> Eia860Settings_init pc_example (Given [2019, 2017, 2019])
       (Given [''utilities_eia860'', ''plants_eia860'', ''utilities_eia860'']) (Given True)
     = Inr \<lparr>Eia860Settings.years = [2017, 2019],
            tables = [''plants_eia860'', ''utilities_eia860''], eia860m = True\<rparr>
   \<and> Eia923Settings_init pc_example (Given [2019, 2017, 2019])
       (Given [''generation_eia923'', ''coalmine_eia923'', ''generation_eia923''])
     = Inr \<lparr>Eia923Settings.years = [2017, 2019],
            tables = [''coalmine_eia923'', ''generation_eia923'']\<rparr>
   \<and> EpaCemsSettings_init pc_example (Given [2019, 2018, 2019]) (Given [''TX'', ''CA'', ''TX''])
     = Inr \<lparr>EpaCemsSettings.years = [2018, 2019], states = [''CA'', ''TX'']\<rparr>
   \<and> Ferc1ToSqliteSettings_init pc_example (Given [2019, 2017, 2019])
       (Given [''f1_steam'', ''f1_fuel'', ''f1_steam'']) (Given 2018) NotGiven
     = Inr \<lparr>Ferc1ToSqliteSettings.years = [2017, 2019],
            tables = [''f1_fuel'', ''f1_steam''], refyear = 2018, bad_cols = []\<rparr>
   \<and> sorted [2017, 2019 :: int] \<and> distinct [2017, 2019 :: int]
   \<and> sorted [2018, 2019 :: int] \<and> distinct [2018, 2019 :: int]
   \<and> sorted [''fuel_ferc1'', ''plants_steam_ferc1'']
   \<and> distinct [''fuel_ferc1'', ''plants_steam_ferc1'']
   \<and> sorted [''plants_eia860'', ''utilities_eia860'']
   \<and> distinct [''plants_eia860'', ''utilities_eia860'']
   \<and> sorted [''coalmine_eia923'', ''generation_eia923'']
   \<and> distinct [''coalmine_eia923'', ''generation_eia923'']
   \<and> sorted [''CA'', ''TX''] \<and> distinct [''CA'', ''TX'']
   \<and> sorted [''f1_fuel'', ''f1_steam''] \<and> distinct [''f1_fuel'', ''f1_steam'']"
proof -
  have h1: "Ferc1Settings_init pc_example (Given [2019, 2017, 2019])
       (Given [''plants_steam_ferc1'', ''fuel_ferc1'', ''plants_steam_ferc1''])
     = Inr \<lparr>Ferc1Settings.years = [2017, 2019],
            tables = [''fuel_ferc1'', ''plants_steam_ferc1'']\<rparr>"
    by code_simp
  have h2: "Eia860Settings_init pc_example (Given [2019, 2017, 2019])
       (Given [''utilities_eia860'', ''plants_eia860'', ''utilities_eia860'']) (Given True)
     = Inr \<lparr>Eia860Settings.years = [2017, 2019],
            tables = [''plants_eia860'', ''utilities_eia860''], eia860m = True\<rparr>"
    by code_simp
  have h3: "Eia923Settings_init pc_example (Given [2019, 2017, 2019])
       (Given [''generation_eia923'', ''coalmine_eia923'', ''generation_eia923''])
     = Inr \<lparr>Eia923Settings.years = [2017, 2019],
            tables = [''coalmine_eia923'', ''generation_eia923'']\<rparr>"
    by code_simp
  have h4: "EpaCemsSettings_init pc_example (Given [2019, 2018, 2019])
       (Given [''TX'', ''CA'', ''TX''])
     = Inr \<lparr>EpaCemsSettings.years = [2018, 2019], states = [''CA'', ''TX'']\<rparr>"
    by code_simp
  have h5: "Ferc1ToSqliteSettings_init pc_example (Given [2019, 2017, 2019])
       (Given [''f1_steam'', ''f1_fuel'', ''f1_steam'']) (Given 2018) NotGiven
     = Inr \<lparr>Ferc1ToSqliteSettings.years = [2017, 2019],
            tables = [''f1_fuel'', ''f1_steam''], refyear = 2018, bad_cols = []\<rparr>"
    by code_simp
  note c = partition_fields_sorted_distinct
  from c [THEN conjunct1, rule_format, OF h1]
    c [THEN conjunct2, THEN conjunct1, rule_format, OF h2]
    c [THEN conjunct2, THEN conjunct2, THEN conjunct1, rule_format, OF h3]
    c [THEN conjunct2, THEN conjunct2, THEN conjunct2, THEN conjunct1, rule_format, OF h4]
    c [THEN conjunct2, THEN conjunct2, THEN conjunct2, THEN conjunct2, rule_format, OF h5]
    h1 h2 h3 h4 h5
  show ?thesis
    by simp
qed

subsection \<open>Requested partitions against the working partitions\<close>

lemma Int_absorb_subset: "A \<subseteq> B \<Longrightarrow> A \<inter> B = A"
  by blast

text \<open>
  Claim C1, as amended.  A constructor called with requested lists returns an object
  exactly when every requested value is in the working partition of its field (and the
  class's other checks pass); the field then holds the sorted, duplicate-free list of the
  intersection of the request with the working partition.  For \<open>EpaCemsSettings\<close> the
  requested states are read after \<open>allow_all_keyword\<close>.  A request with a value outside
  the working partition is rejected, not intersected.
\<close>

theorem validated_partitions_are_intersection:
  "(Ferc1Settings_init pc (Given ys1) (Given ts1) = Inr s1 \<longleftrightarrow>
      set ys1 \<subseteq> set (ferc1_years pc) \<and> set ts1 \<subseteq> set Ferc1Settings_working_tables
      \<and> s1 = \<lparr>Ferc1Settings.years = sorted_list_of_set (set ys1 \<inter> set (ferc1_years pc)),
              tables = sorted_list_of_set (set ts1 \<inter> set Ferc1Settings_working_tables)\<rparr>)
   \<and> (Eia860Settings_init pc (Given ys2) (Given ts2) m2 = Inr s2 \<longleftrightarrow>
      set ys2 \<subseteq> set (eia860_years pc) \<and> set ts2 \<subseteq> set Eia860Settings_working_tables
      \<and> (\<exists>b. validate_field ''eia860m'' False (check_860m_date pc) m2 = ([], Some b)
            \<and> s2 = \<lparr>Eia860Settings.years = sorted_list_of_set (set ys2 \<inter> set (eia860_years pc)),
                    tables = sorted_list_of_set (set ts2 \<inter> set Eia860Settings_working_tables),
                    eia860m = b\<rparr>))
   \<and> (Eia923Settings_init pc (Given ys3) (Given ts3) = Inr s3 \<longleftrightarrow>
      set ys3 \<subseteq> set (eia923_years pc) \<and> set ts3 \<subseteq> set Eia923Settings_working_tables
      \<and> s3 = \<lparr>Eia923Settings.years = sorted_list_of_set (set ys3 \<inter> set (eia923_years pc)),
              tables = sorted_list_of_set (set ts3 \<inter> set Eia923Settings_working_tables)\<rparr>)
   \<and> (EpaCemsSettings_init pc (Given ys4) (Given ts4) = Inr s4 \<longleftrightarrow>
      set ys4 \<subseteq> set (epacems_years pc)
      \<and> set (allow_all_keyword pc ts4) \<subseteq> set (EpaCemsSettings_working_states pc)
      \<and> s4 = \<lparr>EpaCemsSettings.years = sorted_list_of_set (set ys4 \<inter> set (epacems_years pc)),
              states = sorted_list_of_set
                (set (allow_all_keyword pc ts4) \<inter> set (EpaCemsSettings_working_states pc))\<rparr>)
   \<and> (Ferc1ToSqliteSettings_init pc (Given ys5) (Given ts5) r5 b5 = Inr s5 \<longleftrightarrow>
      ferc1_years pc \<noteq> [] \<and> set ys5 \<subseteq> set (ferc1_years pc)
      \<and> set ts5 \<subseteq> set (Ferc1ToSqliteSettings_working_tables pc)
      \<and> (\<exists>r b. validate_field ''refyear'' (Max (set (ferc1_years pc)))
                   (check_reference_year pc) r5 = ([], Some r)
            \<and> validate_field ''bad_cols'' [] Inr b5 = ([], Some b)
            \<and> s5 = \<lparr>Ferc1ToSqliteSettings.years =
                      sorted_list_of_set (set ys5 \<inter> set (ferc1_years pc)),
                    tables = sorted_list_of_set
                      (set ts5 \<inter> set (Ferc1ToSqliteSettings_working_tables pc)),
                    refyear = r, bad_cols = b\<rparr>))"
proof (intro conjI)
  show "Ferc1Settings_init pc (Given ys1) (Given ts1) = Inr s1 \<longleftrightarrow>
      set ys1 \<subseteq> set (ferc1_years pc) \<and> set ts1 \<subseteq> set Ferc1Settings_working_tables
      \<and> s1 = \<lparr>Ferc1Settings.years = sorted_list_of_set (set ys1 \<inter> set (ferc1_years pc)),
              tables = sorted_list_of_set (set ts1 \<inter> set Ferc1Settings_working_tables)\<rparr>"
    by (auto simp: Ferc1Settings_init_Inr Int_absorb_subset)
next
  show "Eia860Settings_init pc (Given ys2) (Given ts2) m2 = Inr s2 \<longleftrightarrow>
      set ys2 \<subseteq> set (eia860_years pc) \<and> set ts2 \<subseteq> set Eia860Settings_working_tables
      \<and> (\<exists>b. validate_field ''eia860m'' False (check_860m_date pc) m2 = ([], Some b)
            \<and> s2 = \<lparr>Eia860Settings.years = sorted_list_of_set (set ys2 \<inter> set (eia860_years pc)),
                    tables = sorted_list_of_set (set ts2 \<inter> set Eia860Settings_working_tables),
                    eia860m = b\<rparr>)"
    by (auto simp: Eia860Settings_init_Inr Int_absorb_subset)
next
  show "Eia923Settings_init pc (Given ys3) (Given ts3) = Inr s3 \<longleftrightarrow>
      set ys3 \<subseteq> set (eia923_years pc) \<and> set ts3 \<subseteq> set Eia923Settings_working_tables
      \<and> s3 = \<lparr>Eia923Settings.years = sorted_list_of_set (set ys3 \<inter> set (eia923_years pc)),
              tables = sorted_list_of_set (set ts3 \<inter> set Eia923Settings_working_tables)\<rparr>"
    by (auto simp: Eia923Settings_init_Inr Int_absorb_subset)
next
  show "EpaCemsSettings_init pc (Given ys4) (Given ts4) = Inr s4 \<longleftrightarrow>
      set ys4 \<subseteq> set (epacems_years pc)
      \<and> set (allow_all_keyword pc ts4) \<subseteq> set (EpaCemsSettings_working_states pc)
      \<and> s4 = \<lparr>EpaCemsSettings.years = sorted_list_of_set (set ys4 \<inter> set (epacems_years pc)),
              states = sorted_list_of_set
                (set (allow_all_keyword pc ts4) \<inter> set (EpaCemsSettings_working_states pc))\<rparr>"
    by (auto simp: EpaCemsSettings_init_Inr Int_absorb_subset)
next
  show "Ferc1ToSqliteSettings_init pc (Given ys5) (Given ts5) r5 b5 = Inr s5 \<longleftrightarrow>
      ferc1_years pc \<noteq> [] \<and> set ys5 \<subseteq> set (ferc1_years pc)
      \<and> set ts5 \<subseteq> set (Ferc1ToSqliteSettings_working_tables pc)
      \<and> (\<exists>r b. validate_field ''refyear'' (Max (set (ferc1_years pc)))
                   (check_reference_year pc) r5 = ([], Some r)
            \<and> validate_field ''bad_cols'' [] Inr b5 = ([], Some b)
            \<and> s5 = \<lparr>Ferc1ToSqliteSettings.years =
                      sorted_list_of_set (set ys5 \<inter> set (ferc1_years pc)),
                    tables = sorted_list_of_set
                      (set ts5 \<inter> set (Ferc1ToSqliteSettings_working_tables pc)),
                    refyear = r, bad_cols = b\<rparr>)"
    by (auto simp: Ferc1ToSqliteSettings_init_Inr Int_absorb_subset)
qed

text \<open>
  Claim C1 as stated fails: a request for the years 2019 and 2020, of which only 2019 is a
  working year, does not yield the intersection; the constructor raises.
\<close>

theorem validation_rejects_unavailable_year:
  "Ferc1Settings_init pc_example (Given [2019, 2020]) (Given [''fuel_ferc1''])
     = Inl (ValidationError [ValueError_not_available {ReprInt 2020} ''years''])"
  by code_simp

text \<open>Two requests inside the working partitions, through the theorem.\<close>

theorem validated_partitions_are_intersection_witness:
  "Ferc1Settings_init pc_example (Given [2019, 2017, 2019])
       (Given [''plants_steam_ferc1'', ''fuel_ferc1'', ''plants_steam_ferc1''])
     = Inr \<lparr>Ferc1Settings.years = [2017, 2019],
            tables = [''fuel_ferc1'', ''plants_steam_ferc1'']\<rparr>
   \<and> EpaCemsSettings_init pc_example (Given [2019]) (Given [''TX'', ''CA'', ''TX''])
     = Inr \<lparr>EpaCemsSettings.years = [2019], states = [''CA'', ''TX'']\<rparr>"
proof -
  have r1: "set [2019, 2017, 2019] \<subseteq> set (ferc1_years pc_example)
      \<and> set [''plants_steam_ferc1'', ''fuel_ferc1'', ''plants_steam_ferc1'']
          \<subseteq> set Ferc1Settings_working_tables
      \<and> \<lparr>Ferc1Settings.years = [2017, 2019],
          tables = [''fuel_ferc1'', ''plants_steam_ferc1'']\<rparr>
        = \<lparr>Ferc1Settings.years =
             sorted_list_of_set (set [2019, 2017, 2019] \<inter> set (ferc1_years pc_example)),
           tables = sorted_list_of_set
             (set [''plants_steam_ferc1'', ''fuel_ferc1'', ''plants_steam_ferc1'']
                \<inter> set Ferc1Settings_working_tables)\<rparr>"
    by code_simp
  have r4: "set [2019] \<subseteq> set (epacems_years pc_example)
      \<and> set (allow_all_keyword pc_example [''TX'', ''CA'', ''TX''])
          \<subseteq> set (EpaCemsSettings_working_states pc_example)
      \<and> \<lparr>EpaCemsSettings.years = [2019], states = [''CA'', ''TX'']\<rparr>
        = \<lparr>EpaCemsSettings.years =
             sorted_list_of_set (set [2019] \<inter> set (epacems_years pc_example)),
           states = sorted_list_of_set
             (set (allow_all_keyword pc_example [''TX'', ''CA'', ''TX''])
                \<inter> set (EpaCemsSettings_working_states pc_example))\<rparr>"
    by code_simp
  note c = validated_partitions_are_intersection
  from c [THEN conjunct1, THEN iffD2, OF r1]
    c [THEN conjunct2, THEN conjunct2, THEN conjunct2, THEN conjunct1, THEN iffD2, OF r4]
  show ?thesis
    by (rule conjI)
qed

subsection \<open>The keyword \<open>all\<close> for states\<close>

lemma set_EpaCemsSettings_working_states:
  "set (EpaCemsSettings_working_states pc) = set (EPACEMS_STATES pc)"
  by (simp add: EpaCemsSettings_working_states_def)

lemma sorted_list_of_set_working_states:
  "sorted_list_of_set (set (EpaCemsSettings_working_states pc)) = EpaCemsSettings_working_states pc"
  by (simp add: EpaCemsSettings_working_states_def)

lemma allow_all_keyword_all:
  "allow_all_keyword pc [''all''] = EpaCemsSettings_working_states pc"
  by (simp add: allow_all_keyword_def)

text \<open>
  Claim C5.  \<open>allow_all_keyword\<close> replaces the one-element list \<open>["all"]\<close> by the working
  states, which are \<open>EPACEMS_STATES\<close> sorted and without duplicates.  The constructor
  called with \<open>states=["all"]\<close> and no years, or with working years, returns an object
  whose \<open>states\<close> field is that full list; and whenever it returns an object at all, the
  field is that list.
\<close>

theorem all_keyword_expands_states:
  "allow_all_keyword pc [''all''] = sorted_list_of_set (set (EPACEMS_STATES pc))
   \<and> EpaCemsSettings_init pc NotGiven (Given [''all''])
       = Inr \<lparr>EpaCemsSettings.years = sorted_list_of_set (set (epacems_years pc)),
              states = sorted_list_of_set (set (EPACEMS_STATES pc))\<rparr>
   \<and> (set ys \<subseteq> set (epacems_years pc) \<longrightarrow>
        EpaCemsSettings_init pc (Given ys) (Given [''all''])
          = Inr \<lparr>EpaCemsSettings.years = sorted_list_of_set (set ys),
                 states = sorted_list_of_set (set (EPACEMS_STATES pc))\<rparr>)
   \<and> (EpaCemsSettings_init pc yi (Given [''all'']) = Inr s \<longrightarrow>
        EpaCemsSettings.states s = sorted_list_of_set (set (EPACEMS_STATES pc)))"
proof (intro conjI impI)
  show "allow_all_keyword pc [''all''] = sorted_list_of_set (set (EPACEMS_STATES pc))"
    by (simp add: allow_all_keyword_def EpaCemsSettings_working_states_def)
next
  show "EpaCemsSettings_init pc NotGiven (Given [''all''])
       = Inr \<lparr>EpaCemsSettings.years = sorted_list_of_set (set (epacems_years pc)),
              states = sorted_list_of_set (set (EPACEMS_STATES pc))\<rparr>"
    unfolding EpaCemsSettings_init_Inr
    by (simp add: allow_all_keyword_all set_EpaCemsSettings_working_states)
next
  assume "set ys \<subseteq> set (epacems_years pc)"
  then show "EpaCemsSettings_init pc (Given ys) (Given [''all''])
          = Inr \<lparr>EpaCemsSettings.years = sorted_list_of_set (set ys),
                 states = sorted_list_of_set (set (EPACEMS_STATES pc))\<rparr>"
    unfolding EpaCemsSettings_init_Inr
    by (simp add: allow_all_keyword_all set_EpaCemsSettings_working_states)
next
  assume "EpaCemsSettings_init pc yi (Given [''all'']) = Inr s"
  then show "EpaCemsSettings.states s = sorted_list_of_set (set (EPACEMS_STATES pc))"
    unfolding EpaCemsSettings_init_Inr
    by (auto simp: allow_all_keyword_all set_EpaCemsSettings_working_states)
qed

text \<open>
  With the sample constants, whose state list is TX, CA, NY, CA: the request \<open>["all"]\<close>
  with the working year 2019 gives the states CA, NY, TX.
\<close>

theorem all_keyword_expands_states_witness:
  "set [2019] \<subseteq> set (epacems_years pc_example)
   \<and> EpaCemsSettings_init pc_example (Given [2019]) (Given [''all''])
       = Inr \<lparr>EpaCemsSettings.years = [2019], states = [''CA'', ''NY'', ''TX'']\<rparr>
   \<and> EpaCemsSettings.states
         \<lparr>EpaCemsSettings.years = [2019], states = [''CA'', ''NY'', ''TX'']\<rparr>
       = sorted_list_of_set (set (EPACEMS_STATES pc_example))"
proof -
  have h: "set [2019] \<subseteq> set (epacems_years pc_example)"
    by code_simp
  have v: "sorted_list_of_set (set [2019::int]) = [2019]"
    "sorted_list_of_set (set (EPACEMS_STATES pc_example)) = [''CA'', ''NY'', ''TX'']"
    by code_simp+
  note c = all_keyword_expands_states [of pc_example "[2019]"]
  from c [THEN conjunct2, THEN conjunct2, THEN conjunct1, rule_format, OF h]
  have r: "EpaCemsSettings_init pc_example (Given [2019]) (Given [''all''])
       = Inr \<lparr>EpaCemsSettings.years = [2019], states = [''CA'', ''NY'', ''TX'']\<rparr>"
    by (simp only: v)
  from all_keyword_expands_states [THEN conjunct2, THEN conjunct2, THEN conjunct2,
         rule_format, OF r]
  have "EpaCemsSettings.states
         \<lparr>EpaCemsSettings.years = [2019], states = [''CA'', ''NY'', ''TX'']\<rparr>
       = sorted_list_of_set (set (EPACEMS_STATES pc_example))" .
  with h r show ?thesis by (intro conjI)
qed

subsection \<open>The 860m date\<close>

lemma eia860m_year: "to_datetime_year eia860m_date = 2020"
  by (simp add: to_datetime_year_def eia860m_date_def)

lemma check_860m_date_True:
  "check_860m_date pc True =
     (if eia860_years pc = [] then Inl ValueError_max_empty
      else if 2020 \<noteq> Max (set (eia860_years pc)) + 1
      then Inl (AssertionError_eia860m_year 2020 (eia860_years pc))
      else Inr True)"
  by (simp add: check_860m_date_def eia860m_year py_max_def)

lemma check_860m_date_False: "check_860m_date pc False = Inr False"
  by (simp add: check_860m_date_def)

lemma Eia860Settings_init_defaults:
  "Eia860Settings_init pc NotGiven NotGiven mi = Inr s \<longleftrightarrow>
     (\<exists>b. validate_field ''eia860m'' False (check_860m_date pc) mi = ([], Some b)
        \<and> s = \<lparr>Eia860Settings.years = sorted_list_of_set (set (eia860_years pc)),
               tables = sorted_list_of_set (set Eia860Settings_working_tables),
               eia860m = b\<rparr>)"
  unfolding Eia860Settings_init_Inr by auto

text \<open>
  Claim C10.  The year of \<open>eia860m_date\<close> is 2020.  With \<open>eia860m\<close> true and at least one
  working eia860 year, \<open>check_860m_date\<close> raises exactly when 2020 is not the greatest
  working year plus one (with no working year at all, \<open>max\<close> raises); with \<open>eia860m\<close> false
  it never raises.  For the constructor called with \<open>eia860m\<close> alone: with \<open>True\<close> it raises
  exactly in those cases, with \<open>False\<close> or without the argument it returns an object.
\<close>

theorem check_860m_date_fails_iff:
  "to_datetime_year eia860m_date = 2020
   \<and> (eia860_years pc \<noteq> [] \<longrightarrow>
        ((\<exists>e. check_860m_date pc True = Inl e) \<longleftrightarrow>
           to_datetime_year eia860m_date \<noteq> Max (set (eia860_years pc)) + 1))
   \<and> (eia860_years pc = [] \<longrightarrow> check_860m_date pc True = Inl ValueError_max_empty)
   \<and> check_860m_date pc False = Inr False
   \<and> ((\<exists>e. Eia860Settings_init pc NotGiven NotGiven (Given True) = Inl e) \<longleftrightarrow>
         eia860_years pc = []
         \<or> to_datetime_year eia860m_date \<noteq> Max (set (eia860_years pc)) + 1)
   \<and> (\<exists>s. Eia860Settings_init pc NotGiven NotGiven (Given False) = Inr s)
   \<and> (\<exists>s. Eia860Settings_init pc NotGiven NotGiven NotGiven = Inr s)"
proof (intro conjI impI)
  show "to_datetime_year eia860m_date = 2020"
    by (rule eia860m_year)
next
  assume "eia860_years pc \<noteq> []"
  then show "(\<exists>e. check_860m_date pc True = Inl e) \<longleftrightarrow>
           to_datetime_year eia860m_date \<noteq> Max (set (eia860_years pc)) + 1"
    by (simp add: check_860m_date_True eia860m_year)
next
  assume "eia860_years pc = []"
  then show "check_860m_date pc True = Inl ValueError_max_empty"
    by (simp add: check_860m_date_True)
next
  show "check_860m_date pc False = Inr False"
    by (rule check_860m_date_False)
next
  have "(\<exists>e. Eia860Settings_init pc NotGiven NotGiven (Given True) = Inl e) \<longleftrightarrow>
          \<not> (\<exists>s. Eia860Settings_init pc NotGiven NotGiven (Given True) = Inr s)"
    by (cases "Eia860Settings_init pc NotGiven NotGiven (Given True)") auto
  also have "\<dots> \<longleftrightarrow> eia860_years pc = []
         \<or> to_datetime_year eia860m_date \<noteq> Max (set (eia860_years pc)) + 1"
    unfolding Eia860Settings_init_defaults
    by (auto simp: check_860m_date_True eia860m_year)
  finally show "(\<exists>e. Eia860Settings_init pc NotGiven NotGiven (Given True) = Inl e) \<longleftrightarrow>
         eia860_years pc = []
         \<or> to_datetime_year eia860m_date \<noteq> Max (set (eia860_years pc)) + 1" .
next
  show "\<exists>s. Eia860Settings_init pc NotGiven NotGiven (Given False) = Inr s"
    unfolding Eia860Settings_init_defaults by (auto simp: check_860m_date_False)
next
  show "\<exists>s. Eia860Settings_init pc NotGiven NotGiven NotGiven = Inr s"
    unfolding Eia860Settings_init_defaults by auto
qed

text \<open>
  With the working years up to 2019 the request passes; with 2020 among the working years
  it raises.
\<close>

theorem check_860m_date_fails_iff_witness:
  "eia860_years pc_example \<noteq> []
   \<and> to_datetime_year eia860m_date = Max (set (eia860_years pc_example)) + 1
   \<and> check_860m_date pc_example True = Inr True
   \<and> eia860_years (pc_example\<lparr>eia860_years := [2019, 2020]\<rparr>) \<noteq> []
   \<and> to_datetime_year eia860m_date
       \<noteq> Max (set (eia860_years (pc_example\<lparr>eia860_years := [2019, 2020]\<rparr>))) + 1
   \<and> check_860m_date (pc_example\<lparr>eia860_years := [2019, 2020]\<rparr>) True
       = Inl (AssertionError_eia860m_year 2020 [2019, 2020])"
proof -
  have h1: "eia860_years pc_example \<noteq> []"
    by code_simp
  have e1: "to_datetime_year eia860m_date = Max (set (eia860_years pc_example)) + 1"
    by code_simp
  have h2: "eia860_years (pc_example\<lparr>eia860_years := [2019, 2020]\<rparr>) \<noteq> []"
    by code_simp
  have e2: "to_datetime_year eia860m_date
       \<noteq> Max (set (eia860_years (pc_example\<lparr>eia860_years := [2019, 2020]\<rparr>))) + 1"
    by code_simp
  note c = check_860m_date_fails_iff [THEN conjunct2, THEN conjunct1, rule_format]
  from c [OF h1] e1 have "\<not> (\<exists>e. check_860m_date pc_example True = Inl e)"
    by simp
  then have r1: "check_860m_date pc_example True = Inr True"
    by (auto simp: check_860m_date_True split: if_splits)
  from c [OF h2] e2
  obtain e where "check_860m_date (pc_example\<lparr>eia860_years := [2019, 2020]\<rparr>) True = Inl e"
    by blast
  then have r2: "check_860m_date (pc_example\<lparr>eia860_years := [2019, 2020]\<rparr>) True
       = Inl (AssertionError_eia860m_year 2020 [2019, 2020])"
    by (auto simp: check_860m_date_True split: if_splits)
  from h1 e1 r1 h2 e2 r2 show ?thesis by (intro conjI)
qed

subsection \<open>Errors of validation\<close>

lemma validate_partitions_Inl:
  "validate_partitions cls key nw yw no yo = Inl e \<longleftrightarrow>
     validate_partition cls ReprStr key nw no = Inl e
     \<or> ((\<exists>t. validate_partition cls ReprStr key nw no = Inr t)
          \<and> validate_partition cls ReprInt ''years'' yw yo = Inl e)"
  by (auto simp: validate_partitions_def split: sum.splits)

lemma GenericDatasetSettings_init_root_error:
  assumes "validate_partitions cls key nw yw (snd (validate_field key nw nv ni))
             (snd (validate_field ''years'' yw Inr yi)) = Inl e"
  shows "GenericDatasetSettings_init cls key nw yw nv yi ni ex =
           Inl (ValidationError (fst (validate_field ''years'' yw Inr yi)
                  @ fst (validate_field key nw nv ni) @ ex @ [e]))"
proof -
  obtain e1 yo where f1: "validate_field ''years'' yw Inr yi = (e1, yo)" by force
  obtain e2 no where f2: "validate_field key nw nv ni = (e2, no)" by force
  from assms show ?thesis
    by (simp add: GenericDatasetSettings_init_def f1 f2)
qed

lemma GenericDatasetSettings_init_extra_errors:
  assumes "ex \<noteq> []"
  shows "\<exists>errs. GenericDatasetSettings_init cls key nw yw nv yi ni ex = Inl (ValidationError errs)
           \<and> set ex \<subseteq> set errs"
proof -
  obtain e1 yo where f1: "validate_field ''years'' yw Inr yi = (e1, yo)" by force
  obtain e2 no where f2: "validate_field key nw nv ni = (e2, no)" by force
  from assms show ?thesis
    by (cases "validate_partitions cls key nw yw no yo")
       (auto simp: GenericDatasetSettings_init_def f1 f2)
qed

lemma Ferc1Settings_init_root_error:
  assumes "validate_partitions ''Ferc1Settings'' ''tables'' Ferc1Settings_working_tables
             (ferc1_years pc)
             (snd (validate_field ''tables'' Ferc1Settings_working_tables Inr ti))
             (snd (validate_field ''years'' (ferc1_years pc) Inr yi)) = Inl e"
  shows "\<exists>errs. Ferc1Settings_init pc yi ti = Inl (ValidationError (errs @ [e]))"
  using GenericDatasetSettings_init_root_error [OF assms, of "[]"]
  by (simp add: Ferc1Settings_init_def)

lemma Eia923Settings_init_root_error:
  assumes "validate_partitions ''Eia923Settings'' ''tables'' Eia923Settings_working_tables
             (eia923_years pc)
             (snd (validate_field ''tables'' Eia923Settings_working_tables Inr ti))
             (snd (validate_field ''years'' (eia923_years pc) Inr yi)) = Inl e"
  shows "\<exists>errs. Eia923Settings_init pc yi ti = Inl (ValidationError (errs @ [e]))"
  using GenericDatasetSettings_init_root_error [OF assms, of "[]"]
  by (simp add: Eia923Settings_init_def)

lemma EpaCemsSettings_init_root_error:
  assumes "validate_partitions ''EpaCemsSettings'' ''states''
             (EpaCemsSettings_working_states pc) (epacems_years pc)
             (snd (validate_field ''states'' (EpaCemsSettings_working_states pc)
                     (\<lambda>x. Inr (allow_all_keyword pc x)) si))
             (snd (validate_field ''years'' (epacems_years pc) Inr yi)) = Inl e"
  shows "\<exists>errs. EpaCemsSettings_init pc yi si = Inl (ValidationError (errs @ [e]))"
  using GenericDatasetSettings_init_root_error [OF assms, of "[]"]
  by (simp add: EpaCemsSettings_init_def)

lemma Eia860Settings_init_root_error:
  assumes "validate_partitions ''Eia860Settings'' ''tables'' Eia860Settings_working_tables
             (eia860_years pc)
             (snd (validate_field ''tables'' Eia860Settings_working_tables Inr ti))
             (snd (validate_field ''years'' (eia860_years pc) Inr yi)) = Inl e"
  shows "\<exists>errs. Eia860Settings_init pc yi ti mi = Inl (ValidationError (errs @ [e]))"
proof -
  obtain e3 m where f3: "validate_field ''eia860m'' False (check_860m_date pc) mi = (e3, m)"
    by force
  from GenericDatasetSettings_init_root_error [OF assms, of e3] show ?thesis
    by (simp add: Eia860Settings_init_def f3 flip: append_assoc)
qed

lemma Ferc1ToSqliteSettings_init_root_error:
  assumes "ferc1_years pc \<noteq> []"
    and "validate_partitions ''Ferc1ToSqliteSettings'' ''tables''
             (Ferc1ToSqliteSettings_working_tables pc) (ferc1_years pc)
             (snd (validate_field ''tables'' (Ferc1ToSqliteSettings_working_tables pc) Inr ti))
             (snd (validate_field ''years'' (ferc1_years pc) Inr yi)) = Inl e"
  shows "\<exists>errs. Ferc1ToSqliteSettings_init pc yi ti ri bi = Inl (ValidationError (errs @ [e]))"
proof -
  obtain e3 r where f3: "validate_field ''refyear'' (Max (set (ferc1_years pc)))
                           (check_reference_year pc) ri = (e3, r)"
    by force
  obtain e4 b where f4: "validate_field ''bad_cols'' [] Inr bi = (e4, b)"
    by force
  from GenericDatasetSettings_init_root_error [OF assms(2), of "e3 @ e4"] assms(1)
  show ?thesis
    by (simp add: Ferc1ToSqliteSettings_init_def py_max_def f3 f4 flip: append_assoc)
qed

lemma Ferc1ToSqliteSettings_init_refyear_error:
  assumes "ferc1_years pc \<noteq> []" and "r \<notin> set (ferc1_years pc)"
  shows "\<exists>errs. Ferc1ToSqliteSettings_init pc yi ti (Given r) bi = Inl (ValidationError errs)
           \<and> ValueError_reference_year r (ferc1_years pc) \<in> set errs"
proof -
  let ?e = "ValueError_reference_year r (ferc1_years pc)"
  have f3: "validate_field ''refyear'' (Max (set (ferc1_years pc)))
              (check_reference_year pc) (Given r) = ([?e], None)"
    using assms(2) by (simp add: check_reference_year_def)
  obtain e4 b where f4: "validate_field ''bad_cols'' [] Inr bi = (e4, b)"
    by force
  from GenericDatasetSettings_init_extra_errors [of "[?e] @ e4" "''Ferc1ToSqliteSettings''"
         "''tables''" "Ferc1ToSqliteSettings_working_tables pc" "ferc1_years pc" Inr yi ti]
  obtain errs where "GenericDatasetSettings_init ''Ferc1ToSqliteSettings'' ''tables''
         (Ferc1ToSqliteSettings_working_tables pc) (ferc1_years pc) Inr yi ti ([?e] @ e4)
           = Inl (ValidationError errs)" and "?e \<in> set errs"
    by auto
  with assms show ?thesis
    by (simp add: Ferc1ToSqliteSettings_init_def py_max_def check_reference_year_def f4)
qed

text \<open>
  Claim C6, as amended.  The loop body of \<open>validate_partitions\<close> raises for a field that is
  missing from the values, naming the class and the field, and for a field with a value
  outside its working partition, naming the field and listing the values outside; the
  working partition is not part of either error.  The root validator raises the error of
  the first field that fails, the names before the years.  In each of the five classes an
  error of the root validator is the last entry of the \<open>ValidationError\<close> that the
  constructor raises, so no object is produced.  \<open>check_reference_year\<close> raises for a year
  outside the working years, with the year and the working years in the error, and the
  constructor of \<open>Ferc1ToSqliteSettings\<close> then raises a \<open>ValidationError\<close> that holds it.
\<close>

theorem invalid_partitions_raise:
  "validate_partition cls repr name w None = Inl (ValueError_missing_field cls name)
   \<and> (\<not> set p \<subseteq> set w \<longrightarrow>
        validate_partition cls repr name w (Some p)
          = Inl (ValueError_not_available (repr ` (set p - set w)) name))
   \<and> (validate_partitions cls key nw yw no yo = Inl e \<longleftrightarrow>
        validate_partition cls ReprStr key nw no = Inl e
        \<or> ((\<exists>t. validate_partition cls ReprStr key nw no = Inr t)
             \<and> validate_partition cls ReprInt ''years'' yw yo = Inl e))
   \<and> (validate_partitions ''Ferc1Settings'' ''tables'' Ferc1Settings_working_tables
         (ferc1_years pc)
         (snd (validate_field ''tables'' Ferc1Settings_working_tables Inr t1))
         (snd (validate_field ''years'' (ferc1_years pc) Inr y1)) = Inl e1 \<longrightarrow>
       (\<exists>errs. Ferc1Settings_init pc y1 t1 = Inl (ValidationError (errs @ [e1]))))
   \<and> (validate_partitions ''Eia860Settings'' ''tables'' Eia860Settings_working_tables
         (eia860_years pc)
         (snd (validate_field ''tables'' Eia860Settings_working_tables Inr t2))
         (snd (validate_field ''years'' (eia860_years pc) Inr y2)) = Inl e2 \<longrightarrow>
       (\<exists>errs. Eia860Settings_init pc y2 t2 m2 = Inl (ValidationError (errs @ [e2]))))
   \<and> (validate_partitions ''Eia923Settings'' ''tables'' Eia923Settings_working_tables
         (eia923_years pc)
         (snd (validate_field ''tables'' Eia923Settings_working_tables Inr t3))
         (snd (validate_field ''years'' (eia923_years pc) Inr y3)) = Inl e3 \<longrightarrow>
       (\<exists>errs. Eia923Settings_init pc y3 t3 = Inl (ValidationError (errs @ [e3]))))
   \<and> (validate_partitions ''EpaCemsSettings'' ''states''
         (EpaCemsSettings_working_states pc) (epacems_years pc)
         (snd (validate_field ''states'' (EpaCemsSettings_working_states pc)
                 (\<lambda>x. Inr (allow_all_keyword pc x)) t4))
         (snd (validate_field ''years'' (epacems_years pc) Inr y4)) = Inl e4 \<longrightarrow>
       (\<exists>errs. EpaCemsSettings_init pc y4 t4 = Inl (ValidationError (errs @ [e4]))))
   \<and> (ferc1_years pc \<noteq> [] \<and>
       validate_partitions ''Ferc1ToSqliteSettings'' ''tables''
         (Ferc1ToSqliteSettings_working_tables pc) (ferc1_years pc)
         (snd (validate_field ''tables'' (Ferc1ToSqliteSettings_working_tables pc) Inr t5))
         (snd (validate_field ''years'' (ferc1_years pc) Inr y5)) = Inl e5 \<longrightarrow>
       (\<exists>errs. Ferc1ToSqliteSettings_init pc y5 t5 r5 b5 = Inl (ValidationError (errs @ [e5]))))
   \<and> (r \<notin> set (ferc1_years pc) \<longrightarrow>
        check_reference_year pc r = Inl (ValueError_reference_year r (ferc1_years pc)))
   \<and> (ferc1_years pc \<noteq> [] \<and> r \<notin> set (ferc1_years pc) \<longrightarrow>
       (\<exists>errs. Ferc1ToSqliteSettings_init pc y6 t6 (Given r) b6 = Inl (ValidationError errs)
          \<and> ValueError_reference_year r (ferc1_years pc) \<in> set errs))"
proof (intro conjI impI)
  show "validate_partition cls repr name w None = Inl (ValueError_missing_field cls name)"
    by (rule validate_partition_None)
next
  assume "\<not> set p \<subseteq> set w"
  then show "validate_partition cls repr name w (Some p)
          = Inl (ValueError_not_available (repr ` (set p - set w)) name)"
    by (simp add: validate_partition_Some)
next
  show "validate_partitions cls key nw yw no yo = Inl e \<longleftrightarrow>
        validate_partition cls ReprStr key nw no = Inl e
        \<or> ((\<exists>t. validate_partition cls ReprStr key nw no = Inr t)
             \<and> validate_partition cls ReprInt ''years'' yw yo = Inl e)"
    by (rule validate_partitions_Inl)
next
  assume "validate_partitions ''Ferc1Settings'' ''tables'' Ferc1Settings_working_tables
         (ferc1_years pc)
         (snd (validate_field ''tables'' Ferc1Settings_working_tables Inr t1))
         (snd (validate_field ''years'' (ferc1_years pc) Inr y1)) = Inl e1"
  then show "\<exists>errs. Ferc1Settings_init pc y1 t1 = Inl (ValidationError (errs @ [e1]))"
    by (rule Ferc1Settings_init_root_error)
next
  assume "validate_partitions ''Eia860Settings'' ''tables'' Eia860Settings_working_tables
         (eia860_years pc)
         (snd (validate_field ''tables'' Eia860Settings_working_tables Inr t2))
         (snd (validate_field ''years'' (eia860_years pc) Inr y2)) = Inl e2"
  then show "\<exists>errs. Eia860Settings_init pc y2 t2 m2 = Inl (ValidationError (errs @ [e2]))"
    by (rule Eia860Settings_init_root_error)
next
  assume "validate_partitions ''Eia923Settings'' ''tables'' Eia923Settings_working_tables
         (eia923_years pc)
         (snd (validate_field ''tables'' Eia923Settings_working_tables Inr t3))
         (snd (validate_field ''years'' (eia923_years pc) Inr y3)) = Inl e3"
  then show "\<exists>errs. Eia923Settings_init pc y3 t3 = Inl (ValidationError (errs @ [e3]))"
    by (rule Eia923Settings_init_root_error)
next
  assume "validate_partitions ''EpaCemsSettings'' ''states''
         (EpaCemsSettings_working_states pc) (epacems_years pc)
         (snd (validate_field ''states'' (EpaCemsSettings_working_states pc)
                 (\<lambda>x. Inr (allow_all_keyword pc x)) t4))
         (snd (validate_field ''years'' (epacems_years pc) Inr y4)) = Inl e4"
  then show "\<exists>errs. EpaCemsSettings_init pc y4 t4 = Inl (ValidationError (errs @ [e4]))"
    by (rule EpaCemsSettings_init_root_error)
next
  assume "ferc1_years pc \<noteq> [] \<and>
       validate_partitions ''Ferc1ToSqliteSettings'' ''tables''
         (Ferc1ToSqliteSettings_working_tables pc) (ferc1_years pc)
         (snd (validate_field ''tables'' (Ferc1ToSqliteSettings_working_tables pc) Inr t5))
         (snd (validate_field ''years'' (ferc1_years pc) Inr y5)) = Inl e5"
  then show "\<exists>errs. Ferc1ToSqliteSettings_init pc y5 t5 r5 b5
               = Inl (ValidationError (errs @ [e5]))"
    using Ferc1ToSqliteSettings_init_root_error by blast
next
  assume "r \<notin> set (ferc1_years pc)"
  then show "check_reference_year pc r = Inl (ValueError_reference_year r (ferc1_years pc))"
    by (simp add: check_reference_year_def)
next
  assume "ferc1_years pc \<noteq> [] \<and> r \<notin> set (ferc1_years pc)"
  then show "\<exists>errs. Ferc1ToSqliteSettings_init pc y6 t6 (Given r) b6 = Inl (ValidationError errs)
          \<and> ValueError_reference_year r (ferc1_years pc) \<in> set errs"
    using Ferc1ToSqliteSettings_init_refyear_error by blast
qed

text \<open>
  Claim C6 as stated fails in one part: the error for an unavailable value does not
  identify the allowed set.  The same request for the year 2020 raises the same error
  under two different sets of working years.
\<close>

theorem error_does_not_identify_allowed_set:
  "Ferc1Settings_init pc_example (Given [2020]) NotGiven
     = Inl (ValidationError [ValueError_not_available {ReprInt 2020} ''years''])
   \<and> Ferc1Settings_init (pc_example\<lparr>ferc1_years := [2018, 2019]\<rparr>) (Given [2020]) NotGiven
     = Inl (ValidationError [ValueError_not_available {ReprInt 2020} ''years''])
   \<and> set (ferc1_years pc_example) \<noteq> set (ferc1_years (pc_example\<lparr>ferc1_years := [2018, 2019]\<rparr>))"
  by code_simp

text \<open>
  A year outside the working years, a field that pydantic rejected, and a reference year
  outside the working years, each through the theorem.
\<close>

theorem invalid_partitions_raise_witness:
  "\<not> set [2019, 2020] \<subseteq> set (ferc1_years pc_example)
   \<and> validate_partition ''Ferc1Settings'' ReprInt ''years'' (ferc1_years pc_example)
         (Some [2019, 2020])
       = Inl (ValueError_not_available {ReprInt 2020} ''years'')
   \<and> (\<exists>errs. Ferc1Settings_init pc_example (Given [2019, 2020]) (Given [''fuel_ferc1''])
         = Inl (ValidationError (errs @ [ValueError_not_available {ReprInt 2020} ''years''])))
   \<and> (\<exists>errs. EpaCemsSettings_init pc_example NotGiven Invalid
         = Inl (ValidationError
                  (errs @ [ValueError_missing_field ''EpaCemsSettings'' ''states''])))
   \<and> 2016 \<notin> set (ferc1_years pc_example)
   \<and> check_reference_year pc_example 2016
       = Inl (ValueError_reference_year 2016 [2017, 2018, 2019])"
proof -
  note c = invalid_partitions_raise
  have h1: "\<not> set [2019, 2020] \<subseteq> set (ferc1_years pc_example)"
    by code_simp
  have v1: "ReprInt ` (set [2019, 2020] - set (ferc1_years pc_example)) = {ReprInt 2020}"
    by code_simp
  from c [THEN conjunct2, THEN conjunct1, rule_format, OF h1,
           of "''Ferc1Settings''" ReprInt "''years''"]
  have r1: "validate_partition ''Ferc1Settings'' ReprInt ''years'' (ferc1_years pc_example)
         (Some [2019, 2020])
       = Inl (ValueError_not_available {ReprInt 2020} ''years'')"
    by (simp only: v1)
  have h2: "validate_partitions ''Ferc1Settings'' ''tables'' Ferc1Settings_working_tables
         (ferc1_years pc_example)
         (snd (validate_field ''tables'' Ferc1Settings_working_tables Inr
                 (Given [''fuel_ferc1''])))
         (snd (validate_field ''years'' (ferc1_years pc_example) Inr (Given [2019, 2020])))
       = Inl (ValueError_not_available {ReprInt 2020} ''years'')"
    by code_simp
  note r2 = c [THEN conjunct2, THEN conjunct2, THEN conjunct2, THEN conjunct1, rule_format,
               OF h2]
  have h3: "validate_partitions ''EpaCemsSettings'' ''states''
         (EpaCemsSettings_working_states pc_example) (epacems_years pc_example)
         (snd (validate_field ''states'' (EpaCemsSettings_working_states pc_example)
                 (\<lambda>x. Inr (allow_all_keyword pc_example x)) Invalid))
         (snd (validate_field ''years'' (epacems_years pc_example) Inr NotGiven))
       = Inl (ValueError_missing_field ''EpaCemsSettings'' ''states'')"
    by code_simp
  note r3 = c [THEN conjunct2, THEN conjunct2, THEN conjunct2, THEN conjunct2,
               THEN conjunct2, THEN conjunct2, THEN conjunct1, rule_format, OF h3]
  have h4: "2016 \<notin> set (ferc1_years pc_example)"
    by code_simp
  have v4: "ferc1_years pc_example = [2017, 2018, 2019]"
    by code_simp
  from c [THEN conjunct2, THEN conjunct2, THEN conjunct2, THEN conjunct2,
          THEN conjunct2, THEN conjunct2, THEN conjunct2, THEN conjunct2,
          THEN conjunct1, rule_format, OF h4]
  have r4: "check_reference_year pc_example 2016
       = Inl (ValueError_reference_year 2016 [2017, 2018, 2019])"
    by (simp only: v4)
  from h1 r1 r2 r3 h4 r4 show ?thesis
    by (intro conjI)
qed

subsection \<open>Dependencies between the EIA datasets\<close>

lemma Eia860Settings_years_valid:
  assumes "Eia860Settings_init pc yi ti mi = Inr s"
  shows "sorted (Eia860Settings.years s)" and "distinct (Eia860Settings.years s)"
    and "set (Eia860Settings.years s) \<subseteq> set (eia860_years pc)"
  using assms unfolding Eia860Settings_init_Inr by auto

lemma Eia923Settings_years_valid:
  assumes "Eia923Settings_init pc yi ti = Inr s"
  shows "sorted (Eia923Settings.years s)" and "distinct (Eia923Settings.years s)"
    and "set (Eia923Settings.years s) \<subseteq> set (eia923_years pc)"
  using assms unfolding Eia923Settings_init_Inr by auto

lemma minimal_eia923_tables:
  "set [''boiler_fuel_eia923'', ''generation_eia923''] \<subseteq> set Eia923Settings_working_tables"
  "sorted_list_of_set (set [''boiler_fuel_eia923'', ''generation_eia923''])
     = [''boiler_fuel_eia923'', ''generation_eia923'']"
  by code_simp+

lemma Eia860Settings_working_tables_sorted:
  "sorted_list_of_set (set Eia860Settings_working_tables) = Eia860Settings_working_tables"
  by code_simp

lemma Eia923Settings_init_minimal:
  assumes "sorted ys" and "distinct ys" and "set ys \<subseteq> set (eia923_years pc)"
  shows "Eia923Settings_init pc (Given ys) (Given [''boiler_fuel_eia923'', ''generation_eia923''])
           = Inr \<lparr>Eia923Settings.years = ys,
                  tables = [''boiler_fuel_eia923'', ''generation_eia923'']\<rparr>"
  unfolding Eia923Settings_init_Inr
  using assms minimal_eia923_tables
  by (simp add: sorted_list_of_set.idem_if_sorted_distinct)

lemma Eia860Settings_init_years_only:
  assumes "sorted ys" and "distinct ys" and "set ys \<subseteq> set (eia860_years pc)"
  shows "Eia860Settings_init pc (Given ys) NotGiven NotGiven
           = Inr \<lparr>Eia860Settings.years = ys, tables = Eia860Settings_working_tables,
                  eia860m = False\<rparr>"
  unfolding Eia860Settings_init_Inr
  using assms
  by (auto simp: sorted_list_of_set.idem_if_sorted_distinct Eia860Settings_working_tables_sorted)

lemma check_eia_dependencies_eia860_only:
  assumes "sorted (Eia860Settings.years s)" and "distinct (Eia860Settings.years s)"
    and "set (Eia860Settings.years s) \<subseteq> set (eia923_years pc)"
  shows "check_eia_dependencies pc \<lparr>eia860 = Some s, eia923 = None\<rparr>
           = Inr \<lparr>eia860 = Some s,
                  eia923 = Some \<lparr>Eia923Settings.years = Eia860Settings.years s,
                    tables = [''boiler_fuel_eia923'', ''generation_eia923'']\<rparr>\<rparr>"
  by (simp add: check_eia_dependencies_def Eia923Settings_init_minimal [OF assms])

lemma check_eia_dependencies_eia923_only:
  assumes "sorted (Eia923Settings.years s)" and "distinct (Eia923Settings.years s)"
    and "set (Eia923Settings.years s) \<subseteq> set (eia860_years pc)"
  shows "check_eia_dependencies pc \<lparr>eia860 = None, eia923 = Some s\<rparr>
           = Inr \<lparr>eia860 = Some \<lparr>Eia860Settings.years = Eia923Settings.years s,
                    tables = Eia860Settings_working_tables, eia860m = False\<rparr>,
                  eia923 = Some s\<rparr>"
  by (simp add: check_eia_dependencies_def Eia860Settings_init_years_only [OF assms])

text \<open>
  Claim C3.  The working years of eia860 and eia923 come from \<open>pudl.constants\<close>; suppose
  every working eia860 year is a working eia923 year.  Then an \<open>EiaSettings\<close> constructed
  with eia860 settings that validate (given as keyword arguments, or as the object they
  validate to) and with no eia923 settings (absent or \<open>None\<close>) holds those eia860 settings and
  eia923 settings with exactly the tables \<open>boiler_fuel_eia923\<close> and \<open>generation_eia923\<close> and
  with the eia860 years.
\<close>

theorem eia860_without_eia923:
  assumes "set (eia860_years pc) \<subseteq> set (eia923_years pc)"
    and "Eia860Settings_init pc yi ti mi = Inr s"
    and "eia860_in = Dict (yi, ti, mi) \<or> eia860_in = Obj s"
    and "eia923_in = Absent \<or> eia923_in = PyNone"
  shows "EiaSettings_init pc eia860_in eia923_in
           = Inr \<lparr>eia860 = Some s,
                  eia923 = Some \<lparr>Eia923Settings.years = Eia860Settings.years s,
                    tables = [''boiler_fuel_eia923'', ''generation_eia923'']\<rparr>\<rparr>"
proof -
  note v = Eia860Settings_years_valid [OF assms(2)]
  from v(3) assms(1) have sub: "set (Eia860Settings.years s) \<subseteq> set (eia923_years pc)"
    by blast
  have f1: "validate_model_field (\<lambda>(y, t, m). Eia860Settings_init pc y t m) eia860_in
              = ([], Some s)"
    using assms(2,3) by auto
  have f2: "validate_model_field (\<lambda>(y, t). Eia923Settings_init pc y t) eia923_in = ([], None)"
    using assms(4) by auto
  show ?thesis
    by (simp add: EiaSettings_init_def f1 f2 check_eia_dependencies_eia860_only [OF v(1,2) sub])
qed

text \<open>
  With the sample constants: eia860 settings for the year 2018 and no eia923 settings.
\<close>

theorem eia860_without_eia923_witness:
  "set (eia860_years pc_example) \<subseteq> set (eia923_years pc_example)
   \<and> Eia860Settings_init pc_example (Given [2018]) NotGiven NotGiven
       = Inr \<lparr>Eia860Settings.years = [2018],
              tables = [''boiler_generator_assn_eia860'', ''generators_eia860'',
                ''ownership_eia860'', ''plants_eia860'', ''utilities_eia860''],
              eia860m = False\<rparr>
   \<and> EiaSettings_init pc_example (Dict (Given [2018], NotGiven, NotGiven)) Absent
       = Inr \<lparr>eia860 = Some \<lparr>Eia860Settings.years = [2018],
                tables = [''boiler_generator_assn_eia860'', ''generators_eia860'',
                  ''ownership_eia860'', ''plants_eia860'', ''utilities_eia860''],
                eia860m = False\<rparr>,
              eia923 = Some \<lparr>Eia923Settings.years = [2018],
                tables = [''boiler_fuel_eia923'', ''generation_eia923'']\<rparr>\<rparr>"
proof -
  have h1: "set (eia860_years pc_example) \<subseteq> set (eia923_years pc_example)"
    by code_simp
  have h2: "Eia860Settings_init pc_example (Given [2018]) NotGiven NotGiven
       = Inr \<lparr>Eia860Settings.years = [2018],
              tables = [''boiler_generator_assn_eia860'', ''generators_eia860'',
                ''ownership_eia860'', ''plants_eia860'', ''utilities_eia860''],
              eia860m = False\<rparr>"
    by code_simp
  from eia860_without_eia923 [OF h1 h2, of "Dict (Given [2018], NotGiven, NotGiven)" Absent]
  have "EiaSettings_init pc_example (Dict (Given [2018], NotGiven, NotGiven)) Absent
       = Inr \<lparr>eia860 = Some \<lparr>Eia860Settings.years = [2018],
                tables = [''boiler_generator_assn_eia860'', ''generators_eia860'',
                  ''ownership_eia860'', ''plants_eia860'', ''utilities_eia860''],
                eia860m = False\<rparr>,
              eia923 = Some \<lparr>Eia923Settings.years = [2018],
                tables = [''boiler_fuel_eia923'', ''generation_eia923'']\<rparr>\<rparr>"
    by simp
  with h1 h2 show ?thesis
    by (intro conjI)
qed

text \<open>
  Claim C9.  Suppose every working eia923 year is a working eia860 year.  Then an
  \<open>EiaSettings\<close> constructed with eia923 settings that validate and with no eia860 settings
  holds those eia923 settings and eia860 settings with the eia923 years, with all the
  working eia860 tables (the default of \<open>tables\<close>) and with \<open>eia860m\<close> false.
\<close>

theorem eia923_without_eia860:
  assumes "set (eia923_years pc) \<subseteq> set (eia860_years pc)"
    and "Eia923Settings_init pc yi ti = Inr s"
    and "eia923_in = Dict (yi, ti) \<or> eia923_in = Obj s"
    and "eia860_in = Absent \<or> eia860_in = PyNone"
  shows "EiaSettings_init pc eia860_in eia923_in
           = Inr \<lparr>eia860 = Some \<lparr>Eia860Settings.years = Eia923Settings.years s,
                    tables = Eia860Settings_working_tables, eia860m = False\<rparr>,
                  eia923 = Some s\<rparr>
         \<and> Eia860Settings_init pc NotGiven NotGiven NotGiven
           = Inr \<lparr>Eia860Settings.years = sorted_list_of_set (set (eia860_years pc)),
                  tables = Eia860Settings_working_tables, eia860m = False\<rparr>
         \<and> set Eia860Settings_working_tables
           = {''boiler_generator_assn_eia860'', ''utilities_eia860'', ''plants_eia860'',
              ''generators_eia860'', ''ownership_eia860''}"
proof (intro conjI)
  note v = Eia923Settings_years_valid [OF assms(2)]
  from v(3) assms(1) have sub: "set (Eia923Settings.years s) \<subseteq> set (eia860_years pc)"
    by blast
  have f1: "validate_model_field (\<lambda>(y, t, m). Eia860Settings_init pc y t m) eia860_in
              = ([], None)"
    using assms(4) by auto
  have f2: "validate_model_field (\<lambda>(y, t). Eia923Settings_init pc y t) eia923_in
              = ([], Some s)"
    using assms(2,3) by auto
  show "EiaSettings_init pc eia860_in eia923_in
           = Inr \<lparr>eia860 = Some \<lparr>Eia860Settings.years = Eia923Settings.years s,
                    tables = Eia860Settings_working_tables, eia860m = False\<rparr>,
                  eia923 = Some s\<rparr>"
    by (simp add: EiaSettings_init_def f1 f2 check_eia_dependencies_eia923_only [OF v(1,2) sub])
next
  show "Eia860Settings_init pc NotGiven NotGiven NotGiven
           = Inr \<lparr>Eia860Settings.years = sorted_list_of_set (set (eia860_years pc)),
                  tables = Eia860Settings_working_tables, eia860m = False\<rparr>"
    unfolding Eia860Settings_init_Inr
    by (auto simp: Eia860Settings_working_tables_sorted)
next
  show "set Eia860Settings_working_tables
           = {''boiler_generator_assn_eia860'', ''utilities_eia860'', ''plants_eia860'',
              ''generators_eia860'', ''ownership_eia860''}"
    by (auto simp: Eia860Settings_working_tables_def)
qed

text \<open>
  With the sample constants: eia923 settings for the year 2018 and one table, and \<open>None\<close>
  for eia860.
\<close>

theorem eia923_without_eia860_witness:
  "set (eia923_years pc_example) \<subseteq> set (eia860_years pc_example)
   \<and> Eia923Settings_init pc_example (Given [2018]) (Given [''coalmine_eia923''])
       = Inr \<lparr>Eia923Settings.years = [2018], tables = [''coalmine_eia923'']\<rparr>
   \<and> EiaSettings_init pc_example PyNone (Dict (Given [2018], Given [''coalmine_eia923'']))
       = Inr \<lparr>eia860 = Some \<lparr>Eia860Settings.years = [2018],
                tables = [''boiler_generator_assn_eia860'', ''generators_eia860'',
                  ''ownership_eia860'', ''plants_eia860'', ''utilities_eia860''],
                eia860m = False\<rparr>,
              eia923 = Some \<lparr>Eia923Settings.years = [2018],
                tables = [''coalmine_eia923'']\<rparr>\<rparr>"
proof -
  have h1: "set (eia923_years pc_example) \<subseteq> set (eia860_years pc_example)"
    by code_simp
  have h2: "Eia923Settings_init pc_example (Given [2018]) (Given [''coalmine_eia923''])
       = Inr \<lparr>Eia923Settings.years = [2018], tables = [''coalmine_eia923'']\<rparr>"
    by code_simp
  have w: "Eia860Settings_working_tables
       = [''boiler_generator_assn_eia860'', ''generators_eia860'',
          ''ownership_eia860'', ''plants_eia860'', ''utilities_eia860'']"
    by code_simp
  from eia923_without_eia860 [OF h1 h2,
         of "Dict (Given [2018], Given [''coalmine_eia923''])" PyNone, THEN conjunct1]
  have "EiaSettings_init pc_example PyNone (Dict (Given [2018], Given [''coalmine_eia923'']))
       = Inr \<lparr>eia860 = Some \<lparr>Eia860Settings.years = [2018],
                tables = [''boiler_generator_assn_eia860'', ''generators_eia860'',
                  ''ownership_eia860'', ''plants_eia860'', ''utilities_eia860''],
                eia860m = False\<rparr>,
              eia923 = Some \<lparr>Eia923Settings.years = [2018],
                tables = [''coalmine_eia923'']\<rparr>\<rparr>"
    by (simp add: w)
  with h1 h2 show ?thesis
    by (intro conjI)
qed

subsection \<open>No dataset requested\<close>

lemma Ferc1Settings_working_tables_sorted:
  "sorted_list_of_set (set Ferc1Settings_working_tables) = Ferc1Settings_working_tables"
  by code_simp

lemma Ferc1Settings_init_default:
  "Ferc1Settings_init pc NotGiven NotGiven
     = Inr \<lparr>Ferc1Settings.years = sorted_list_of_set (set (ferc1_years pc)),
            tables = Ferc1Settings_working_tables\<rparr>"
  unfolding Ferc1Settings_init_Inr
  by (simp add: Ferc1Settings_working_tables_sorted)

lemma EiaSettings_init_default:
  "EiaSettings_init pc Absent Absent = Inr \<lparr>eia860 = None, eia923 = None\<rparr>"
  by (simp add: EiaSettings_init_def check_eia_dependencies_def)

lemma GlueSettings_init_default:
  "GlueSettings_init NotGiven NotGiven = Inr \<lparr>GlueSettings.eia = True, ferc1 = True\<rparr>"
  by (simp add: GlueSettings_init_def)

lemma EpaCemsSettings_init_default:
  "EpaCemsSettings_init pc NotGiven NotGiven
     = Inr \<lparr>EpaCemsSettings.years = sorted_list_of_set (set (epacems_years pc)),
            states = EpaCemsSettings_working_states pc\<rparr>"
  unfolding EpaCemsSettings_init_Inr
  by (simp add: sorted_list_of_set_working_states)

lemma not_truthy_iff:
  "\<not> truthy no_kw v \<longleftrightarrow> v = Absent \<or> v = PyNone \<or> v = Dict no_kw"
  by (cases v) auto

text \<open>
  Claim C4.  When none of the four keyword arguments of \<open>DatasetsSettings\<close> is truthy (each
  is absent, \<open>None\<close> or the empty dictionary), the constructor returns an object whose
  \<open>ferc1\<close> is \<open>Ferc1Settings()\<close>, all working FERC1 years and tables, and whose \<open>eia\<close> is
  \<open>EiaSettings()\<close>, which holds neither eia860 nor eia923 settings.  Both being present,
  \<open>glue\<close> is \<open>GlueSettings()\<close>; \<open>epacems\<close> is \<open>None\<close> unless it was given as the empty
  dictionary, which validates to \<open>EpaCemsSettings()\<close>.
\<close>

theorem no_datasets_defaults_to_ferc1_and_eia:
  assumes "\<not> truthy (NotGiven, NotGiven) ferc1_in"
    and "\<not> truthy (Absent, Absent) eia_in"
    and "\<not> truthy (NotGiven, NotGiven) glue_in"
    and "\<not> truthy (NotGiven, NotGiven) epacems_in"
  shows "DatasetsSettings_init pc ferc1_in eia_in glue_in epacems_in
           = Inr \<lparr>DatasetsSettings.ferc1 =
                    Some \<lparr>Ferc1Settings.years = sorted_list_of_set (set (ferc1_years pc)),
                      tables = Ferc1Settings_working_tables\<rparr>,
                  eia = Some \<lparr>eia860 = None, eia923 = None\<rparr>,
                  glue = Some \<lparr>GlueSettings.eia = True, ferc1 = True\<rparr>,
                  epacems =
                    (if epacems_in = Dict (NotGiven, NotGiven)
                     then Some \<lparr>EpaCemsSettings.years =
                                  sorted_list_of_set (set (epacems_years pc)),
                                states = EpaCemsSettings_working_states pc\<rparr>
                     else None)\<rparr>
         \<and> Ferc1Settings_init pc NotGiven NotGiven
           = Inr \<lparr>Ferc1Settings.years = sorted_list_of_set (set (ferc1_years pc)),
                  tables = Ferc1Settings_working_tables\<rparr>
         \<and> EiaSettings_init pc Absent Absent = Inr \<lparr>eia860 = None, eia923 = None\<rparr>"
proof (intro conjI)
  have d: "default_load_all pc (ferc1_in, eia_in, glue_in, epacems_in)
             = Inr (Obj \<lparr>Ferc1Settings.years = sorted_list_of_set (set (ferc1_years pc)),
                          tables = Ferc1Settings_working_tables\<rparr>,
                    Obj \<lparr>eia860 = None, eia923 = None\<rparr>, glue_in, epacems_in)"
    using assms
    by (simp add: default_load_all_def Ferc1Settings_init_default EiaSettings_init_default)
  have g: "validate_model_field (\<lambda>(a, b). GlueSettings_init a b) glue_in = ([], None)
           \<or> validate_model_field (\<lambda>(a, b). GlueSettings_init a b) glue_in
                = ([], Some \<lparr>GlueSettings.eia = True, ferc1 = True\<rparr>)"
    using assms(3) by (auto simp: not_truthy_iff GlueSettings_init_default)
  have c: "validate_model_field (\<lambda>(y, s). EpaCemsSettings_init pc y s) epacems_in
             = ([], if epacems_in = Dict (NotGiven, NotGiven)
                    then Some \<lparr>EpaCemsSettings.years =
                                 sorted_list_of_set (set (epacems_years pc)),
                               states = EpaCemsSettings_working_states pc\<rparr>
                    else None)"
    using assms(4) by (auto simp: not_truthy_iff EpaCemsSettings_init_default)
  from g show "DatasetsSettings_init pc ferc1_in eia_in glue_in epacems_in
           = Inr \<lparr>DatasetsSettings.ferc1 =
                    Some \<lparr>Ferc1Settings.years = sorted_list_of_set (set (ferc1_years pc)),
                      tables = Ferc1Settings_working_tables\<rparr>,
                  eia = Some \<lparr>eia860 = None, eia923 = None\<rparr>,
                  glue = Some \<lparr>GlueSettings.eia = True, ferc1 = True\<rparr>,
                  epacems =
                    (if epacems_in = Dict (NotGiven, NotGiven)
                     then Some \<lparr>EpaCemsSettings.years =
                                  sorted_list_of_set (set (epacems_years pc)),
                                states = EpaCemsSettings_working_states pc\<rparr>
                     else None)\<rparr>"
    by (auto simp: DatasetsSettings_init_def d c add_glue_settings_def
          GlueSettings_init_default)
next
  show "Ferc1Settings_init pc NotGiven NotGiven
           = Inr \<lparr>Ferc1Settings.years = sorted_list_of_set (set (ferc1_years pc)),
                  tables = Ferc1Settings_working_tables\<rparr>"
    by (rule Ferc1Settings_init_default)
next
  show "EiaSettings_init pc Absent Absent = Inr \<lparr>eia860 = None, eia923 = None\<rparr>"
    by (rule EiaSettings_init_default)
qed

text \<open>
  With the sample constants: \<open>ferc1\<close> absent, \<open>eia\<close> given as \<open>None\<close>, \<open>glue\<close> as the empty
  dictionary and \<open>epacems\<close> absent.
\<close>

theorem no_datasets_defaults_to_ferc1_and_eia_witness:
  "\<not> truthy (NotGiven, NotGiven) (Absent :: (Ferc1_kwargs, Ferc1Settings) raw)
   \<and> \<not> truthy (Absent, Absent) (PyNone :: (Eia_kwargs, EiaSettings) raw)
   \<and> \<not> truthy (NotGiven, NotGiven) (Dict (NotGiven, NotGiven) :: (Glue_kwargs, GlueSettings) raw)
   \<and> \<not> truthy (NotGiven, NotGiven) (Absent :: (EpaCems_kwargs, EpaCemsSettings) raw)
   \<and> DatasetsSettings_init pc_example Absent PyNone (Dict (NotGiven, NotGiven)) Absent
       = Inr \<lparr>DatasetsSettings.ferc1 =
                Some \<lparr>Ferc1Settings.years = [2017, 2018, 2019],
                  tables = [''fuel_ferc1'', ''plant_in_service_ferc1'', ''plants_hydro_ferc1'',
                    ''plants_pumped_storage_ferc1'', ''plants_small_ferc1'',
                    ''plants_steam_ferc1'', ''purchased_power_ferc1'']\<rparr>,
              eia = Some \<lparr>eia860 = None, eia923 = None\<rparr>,
              glue = Some \<lparr>GlueSettings.eia = True, ferc1 = True\<rparr>,
              epacems = None\<rparr>"
proof -
  have h1: "\<not> truthy (NotGiven, NotGiven) (Absent :: (Ferc1_kwargs, Ferc1Settings) raw)"
    by simp
  have h2: "\<not> truthy (Absent, Absent) (PyNone :: (Eia_kwargs, EiaSettings) raw)"
    by simp
  have h3: "\<not> truthy (NotGiven, NotGiven)
               (Dict (NotGiven, NotGiven) :: (Glue_kwargs, GlueSettings) raw)"
    by simp
  have h4: "\<not> truthy (NotGiven, NotGiven) (Absent :: (EpaCems_kwargs, EpaCemsSettings) raw)"
    by simp
  have v: "sorted_list_of_set (set (ferc1_years pc_example)) = [2017, 2018, 2019]"
    "Ferc1Settings_working_tables
       = [''fuel_ferc1'', ''plant_in_service_ferc1'', ''plants_hydro_ferc1'',
          ''plants_pumped_storage_ferc1'', ''plants_small_ferc1'',
          ''plants_steam_ferc1'', ''purchased_power_ferc1'']"
    by code_simp+
  from no_datasets_defaults_to_ferc1_and_eia [OF h1 h2 h3 h4, of pc_example, THEN conjunct1]
  have "DatasetsSettings_init pc_example Absent PyNone (Dict (NotGiven, NotGiven)) Absent
       = Inr \<lparr>DatasetsSettings.ferc1 =
                Some \<lparr>Ferc1Settings.years = [2017, 2018, 2019],
                  tables = [''fuel_ferc1'', ''plant_in_service_ferc1'', ''plants_hydro_ferc1'',
                    ''plants_pumped_storage_ferc1'', ''plants_small_ferc1'',
                    ''plants_steam_ferc1'', ''purchased_power_ferc1'']\<rparr>,
              eia = Some \<lparr>eia860 = None, eia923 = None\<rparr>,
              glue = Some \<lparr>GlueSettings.eia = True, ferc1 = True\<rparr>,
              epacems = None\<rparr>"
    by (simp add: v)
  with h1 h2 h3 h4 show ?thesis
    by (intro conjI)
qed

section \<open>Properties of the migration\<close>

lemma add_two_columns:
  "batch_alter_table t [add_column ferc_account, add_column row_type_xbrl] db = Inr db' \<longleftrightarrow>
     (\<exists>cols. db t = Some cols
        \<and> ''ferc_account'' \<notin> col_name ` set cols \<and> ''row_type_xbrl'' \<notin> col_name ` set cols
        \<and> db' = db(t \<mapsto> cols @ [ferc_account, row_type_xbrl]))"
  by (cases "db t") (auto simp: ferc_account_def row_type_xbrl_def)

lemma drop_two_columns:
  assumes "db t = Some (cols @ [ferc_account, row_type_xbrl])"
    and "''ferc_account'' \<notin> col_name ` set cols"
    and "''row_type_xbrl'' \<notin> col_name ` set cols"
  shows "batch_alter_table t [drop_column ''row_type_xbrl'', drop_column ''ferc_account''] db
           = Inr (db(t \<mapsto> cols))"
proof -
  have keep: "filter (\<lambda>c. col_name c \<noteq> n) cols = cols" if "n \<notin> col_name ` set cols" for n
    using that by (induction cols) auto
  from assms show ?thesis
    by (simp add: ferc_account_def row_type_xbrl_def keep)
qed

lemma upgrade_Inr:
  "upgrade db = Inr db' \<longleftrightarrow>
     (\<exists>cols1 cols2.
          db ''denorm_electric_operating_revenues_ferc1'' = Some cols1
        \<and> db ''electric_operating_revenues_ferc1'' = Some cols2
        \<and> ''ferc_account'' \<notin> col_name ` set cols1 \<and> ''row_type_xbrl'' \<notin> col_name ` set cols1
        \<and> ''ferc_account'' \<notin> col_name ` set cols2 \<and> ''row_type_xbrl'' \<notin> col_name ` set cols2
        \<and> db' = db(''denorm_electric_operating_revenues_ferc1''
                      \<mapsto> cols1 @ [ferc_account, row_type_xbrl],
                    ''electric_operating_revenues_ferc1''
                      \<mapsto> cols2 @ [ferc_account, row_type_xbrl]))"
proof -
  let ?t1 = "''denorm_electric_operating_revenues_ferc1''"
  let ?t2 = "''electric_operating_revenues_ferc1''"
  let ?ops = "[add_column ferc_account, add_column row_type_xbrl]"
  have "upgrade db = Inr db' \<longleftrightarrow>
          (\<exists>db1. batch_alter_table ?t1 ?ops db = Inr db1 \<and> batch_alter_table ?t2 ?ops db1 = Inr db')"
    by (auto simp: upgrade_def upgrade_commands_def split: sum.splits)
  also have "\<dots> \<longleftrightarrow>
     (\<exists>cols1 cols2. db ?t1 = Some cols1 \<and> db ?t2 = Some cols2
        \<and> ''ferc_account'' \<notin> col_name ` set cols1 \<and> ''row_type_xbrl'' \<notin> col_name ` set cols1
        \<and> ''ferc_account'' \<notin> col_name ` set cols2 \<and> ''row_type_xbrl'' \<notin> col_name ` set cols2
        \<and> db' = db(?t1 \<mapsto> cols1 @ [ferc_account, row_type_xbrl],
                    ?t2 \<mapsto> cols2 @ [ferc_account, row_type_xbrl]))"
    unfolding add_two_columns by auto
  finally show ?thesis .
qed

lemma downgrade_after_upgrade:
  assumes "upgrade db = Inr db'"
  shows "downgrade db' = Inr db"
proof -
  let ?t1 = "''denorm_electric_operating_revenues_ferc1''"
  let ?t2 = "''electric_operating_revenues_ferc1''"
  from assms obtain cols1 cols2 where
    t1: "db ?t1 = Some cols1" and t2: "db ?t2 = Some cols2" and
    n1: "''ferc_account'' \<notin> col_name ` set cols1" "''row_type_xbrl'' \<notin> col_name ` set cols1" and
    n2: "''ferc_account'' \<notin> col_name ` set cols2" "''row_type_xbrl'' \<notin> col_name ` set cols2" and
    db': "db' = db(?t1 \<mapsto> cols1 @ [ferc_account, row_type_xbrl],
                   ?t2 \<mapsto> cols2 @ [ferc_account, row_type_xbrl])"
    unfolding upgrade_Inr by blast
  have a: "db' ?t2 = Some (cols2 @ [ferc_account, row_type_xbrl])"
    by (simp add: db')
  note s1 = drop_two_columns [of db' ?t2 cols2, OF a n2]
  have b: "(db'(?t2 \<mapsto> cols2)) ?t1 = Some (cols1 @ [ferc_account, row_type_xbrl])"
    by (simp add: db')
  note s2 = drop_two_columns [of "db'(?t2 \<mapsto> cols2)" ?t1 cols1, OF b n1]
  have "(db'(?t2 \<mapsto> cols2))(?t1 \<mapsto> cols1) = db"
    using t1 t2 by (auto simp: db' fun_eq_iff)
  with s1 s2 show ?thesis
    by (simp add: downgrade_def downgrade_commands_def)
qed

text \<open>
  Claim C2.  If \<open>upgrade\<close> succeeds on a schema, \<open>downgrade\<close> succeeds on the result and
  returns the schema \<open>upgrade\<close> started from; in particular the columns of the two tables
  are as before.  The pairs of table and column that \<open>upgrade\<close> adds are the pairs that
  \<open>downgrade\<close> drops: \<open>ferc_account\<close> and \<open>row_type_xbrl\<close> on each of the two tables.
\<close>

theorem upgrade_then_downgrade:
  "(upgrade db = Inr db' \<longrightarrow>
      downgrade db' = Inr db
      \<and> (\<exists>db''. downgrade db' = Inr db''
            \<and> db'' ''denorm_electric_operating_revenues_ferc1''
                = db ''denorm_electric_operating_revenues_ferc1''
            \<and> db'' ''electric_operating_revenues_ferc1''
                = db ''electric_operating_revenues_ferc1''))
   \<and> set (added_columns upgrade_commands) = set (dropped_columns downgrade_commands)
   \<and> set (added_columns upgrade_commands)
       = {(''denorm_electric_operating_revenues_ferc1'', ''ferc_account''),
          (''denorm_electric_operating_revenues_ferc1'', ''row_type_xbrl''),
          (''electric_operating_revenues_ferc1'', ''ferc_account''),
          (''electric_operating_revenues_ferc1'', ''row_type_xbrl'')}
   \<and> dropped_columns upgrade_commands = [] \<and> added_columns downgrade_commands = []"
proof (intro conjI impI)
  assume u: "upgrade db = Inr db'"
  then show "downgrade db' = Inr db"
    by (rule downgrade_after_upgrade)
  from downgrade_after_upgrade [OF u]
  show "\<exists>db''. downgrade db' = Inr db''
            \<and> db'' ''denorm_electric_operating_revenues_ferc1''
                = db ''denorm_electric_operating_revenues_ferc1''
            \<and> db'' ''electric_operating_revenues_ferc1''
                = db ''electric_operating_revenues_ferc1''"
    by simp
next
  show "set (added_columns upgrade_commands) = set (dropped_columns downgrade_commands)"
    by (auto simp: upgrade_commands_def downgrade_commands_def ferc_account_def
          row_type_xbrl_def)
next
  show "set (added_columns upgrade_commands)
       = {(''denorm_electric_operating_revenues_ferc1'', ''ferc_account''),
          (''denorm_electric_operating_revenues_ferc1'', ''row_type_xbrl''),
          (''electric_operating_revenues_ferc1'', ''ferc_account''),
          (''electric_operating_revenues_ferc1'', ''row_type_xbrl'')}"
    by (simp add: upgrade_commands_def ferc_account_def row_type_xbrl_def)
next
  show "dropped_columns upgrade_commands = []"
    by (simp add: upgrade_commands_def)
next
  show "added_columns downgrade_commands = []"
    by (simp add: downgrade_commands_def)
qed

text \<open>On the sample schema \<open>upgrade\<close> succeeds, and \<open>downgrade\<close> gives the schema back.\<close>

theorem upgrade_then_downgrade_witness:
  "upgrade schema_example
     = Inr (schema_example
          (''denorm_electric_operating_revenues_ferc1''
             \<mapsto> [record_id, revenue_type] @ [ferc_account, row_type_xbrl],
           ''electric_operating_revenues_ferc1''
             \<mapsto> [record_id] @ [ferc_account, row_type_xbrl]))
   \<and> downgrade (schema_example
          (''denorm_electric_operating_revenues_ferc1''
             \<mapsto> [record_id, revenue_type] @ [ferc_account, row_type_xbrl],
           ''electric_operating_revenues_ferc1''
             \<mapsto> [record_id] @ [ferc_account, row_type_xbrl]))
     = Inr schema_example"
proof -
  have h: "upgrade schema_example
     = Inr (schema_example
          (''denorm_electric_operating_revenues_ferc1''
             \<mapsto> [record_id, revenue_type] @ [ferc_account, row_type_xbrl],
           ''electric_operating_revenues_ferc1''
             \<mapsto> [record_id] @ [ferc_account, row_type_xbrl]))"
    unfolding upgrade_Inr
    by (simp add: schema_example_def record_id_def revenue_type_def)
  from upgrade_then_downgrade [THEN conjunct1, rule_format, OF h, THEN conjunct1] h
  show ?thesis
    by (intro conjI)
qed

end
